theory Spec2Isabelle
  imports Complex_Main "HOL-Library.Signed_Division"
begin

unbundle bit_operations_syntax

section \<open>The motion planner of Marlin/planner.cpp\<close>

text \<open>
  The embedding follows \<^verbatim>\<open>Marlin/planner.cpp\<close> function by function.

  \<^item> C \<^verbatim>\<open>float\<close>/\<^verbatim>\<open>double\<close> values are real numbers: rounding, infinities and NaN are
    not represented. A division by zero yields 0 in HOL where the hardware would
    yield an infinity or a NaN.
  \<^item> C integers (\<^verbatim>\<open>long\<close>, \<^verbatim>\<open>unsigned long\<close>, \<^verbatim>\<open>int32_t\<close>, \<^verbatim>\<open>uint8_t\<close>) are unbounded
    \<open>int\<close> or \<open>nat\<close>: executions in which a 32-bit value would overflow are outside the
    model.
  \<^item> Arrays are lists; the ring buffer is a list of blocks indexed by head and tail.
  \<^item> The build that is modelled has \<^verbatim>\<open>EXTRUDERS > 1\<close>, \<^verbatim>\<open>SLOWDOWN\<close> and
    \<^verbatim>\<open>PER_EXTRUDER_FANS\<close> defined, and \<^verbatim>\<open>C_COMPENSATION\<close>, \<^verbatim>\<open>XY_FREQUENCY_LIMIT\<close>,
    \<^verbatim>\<open>PREVENT_DANGEROUS_EXTRUDE\<close>, \<^verbatim>\<open>AUTOTEMP\<close>, \<^verbatim>\<open>FAN_SOFT_PWM\<close>,
    \<^verbatim>\<open>FAN_KICKSTART_TIME\<close> and \<^verbatim>\<open>ENABLE_DEBUG\<close> undefined; hence \<^verbatim>\<open>COMP_SPEED\<close> is 0.0.
\<close>

subsection \<open>Data\<close>

text \<open>
  The axis indices are declared in Marlin.h, which is not part of the sources at hand;
  they follow the order X, Y, Z, E of the position register, with \<^verbatim>\<open>previous_speed[3]\<close>
  the entry of E.
\<close>

definition X_AXIS :: nat where [simp]: "X_AXIS = 0"
definition Y_AXIS :: nat where [simp]: "Y_AXIS = 1"
definition Z_AXIS :: nat where [simp]: "Z_AXIS = 2"
definition E_AXIS :: nat where [simp]: "E_AXIS = 3"
definition NUM_AXIS :: nat where [simp]: "NUM_AXIS = 4"

text \<open>
  \<^verbatim>\<open>block_t\<close> is declared in planner.h, which is not part of the sources at hand; the
  record lists the fields that planner.cpp reads or writes, typed by their use.
\<close>

record block =
  steps_x :: int
  steps_y :: int
  steps_z :: int
  steps_e :: int
  step_event_count :: int
  accelerate_until :: int
  decelerate_after :: int
  acceleration_rate :: int
  direction_bits :: nat
  active_extruder :: nat
  fan_speed :: int
  travel :: bool
  retract :: bool
  restore :: bool
  nominal_speed :: real
  entry_speed :: real
  max_entry_speed :: real
  millimeters :: real
  acceleration :: real
  recalculate_flag :: bool
  nominal_length_flag :: bool
  nominal_rate :: int
  initial_rate :: int
  final_rate :: int
  acceleration_st :: int
  busy :: bool

text \<open>A block of a zero-initialised static buffer.\<close>

definition zero_block :: block where
  "zero_block = \<lparr>steps_x = 0, steps_y = 0, steps_z = 0, steps_e = 0, step_event_count = 0,
     accelerate_until = 0, decelerate_after = 0, acceleration_rate = 0, direction_bits = 0,
     active_extruder = 0, fan_speed = 0, travel = False, retract = False, restore = False,
     nominal_speed = 0, entry_speed = 0, max_entry_speed = 0, millimeters = 0,
     acceleration = 0, recalculate_flag = False, nominal_length_flag = False,
     nominal_rate = 0, initial_rate = 0, final_rate = 0, acceleration_st = 0, busy = False\<rparr>"

text \<open>
  The interrupt state of the controller, as far as the planner touches it: the global
  interrupt enable bit, and a record of every store to a field that the stepper
  interrupt reads, each with the value of the enable bit at the moment of the store.
\<close>

datatype profile_field = Accelerate_until | Decelerate_after | Initial_rate | Final_rate

record mcu =
  irq_enabled :: bool
  store_log :: "(profile_field \<times> bool) list"

definition mcu_running :: mcu where
  "mcu_running = \<lparr>irq_enabled = True, store_log = []\<rparr>"

subsection \<open>C library functions\<close>

text \<open>\<^verbatim>\<open>lround\<close> rounds to the nearest integer, halfway cases away from zero.\<close>

definition lround :: "real \<Rightarrow> int" where
  "lround x = (if 0 \<le> x then \<lfloor>x + 1/2\<rfloor> else - \<lfloor>- x + 1/2\<rfloor>)"

text \<open>Conversion of a floating value to an integer type truncates toward zero.\<close>

definition trunc :: "real \<Rightarrow> int" where
  "trunc x = (if 0 \<le> x then \<lfloor>x\<rfloor> else \<lceil>x\<rceil>)"

definition labs :: "int \<Rightarrow> int" where
  "labs k = \<bar>k\<bar>"

definition fabs :: "real \<Rightarrow> real" where
  "fabs x = \<bar>x\<bar>"

definition square :: "real \<Rightarrow> real" where
  "square x = x * x"

subsection \<open>Ring indices\<close>

definition next_block_index :: "nat \<Rightarrow> nat \<Rightarrow> nat" where
  "next_block_index BLOCK_BUFFER_SIZE block_index =
     (let block_index = block_index + 1
      in if block_index = BLOCK_BUFFER_SIZE then 0 else block_index)"

definition prev_block_index :: "nat \<Rightarrow> nat \<Rightarrow> nat" where
  "prev_block_index BLOCK_BUFFER_SIZE block_index =
     (let block_index = (if block_index = 0 then BLOCK_BUFFER_SIZE else block_index)
      in block_index - 1)"

subsection \<open>Distances and speeds under constant acceleration\<close>

definition estimate_acceleration_distance :: "real \<Rightarrow> real \<Rightarrow> real \<Rightarrow> real" where
  "estimate_acceleration_distance initial_rate' target_rate accel =
     (if accel \<noteq> 0
      then (target_rate * target_rate - initial_rate' * initial_rate') / (2 * accel)
      else 0)"

definition intersection_distance :: "real \<Rightarrow> real \<Rightarrow> real \<Rightarrow> real \<Rightarrow> real" where
  "intersection_distance initial_rate' final_rate' accel distance =
     (if accel \<noteq> 0
      then (2 * accel * distance - initial_rate' * initial_rate' + final_rate' * final_rate')
             / (4 * accel)
      else 0)"

definition max_allowable_speed :: "real \<Rightarrow> real \<Rightarrow> real \<Rightarrow> real" where
  "max_allowable_speed accel target_velocity distance =
     sqrt (target_velocity * target_velocity - 2 * accel * distance)"

subsection \<open>calculate_trapezoid_for_block\<close>

text \<open>
  The locals of \<^verbatim>\<open>calculate_trapezoid_for_block\<close> at the end of its computing part
  (up to the critical section). The acceleration and deceleration distances are taken
  from the rates stored in the block, \<^verbatim>\<open>block->initial_rate\<close> and
  \<^verbatim>\<open>block->final_rate\<close>, as the source does, not from the locals \<^verbatim>\<open>initial_rate\<close> and
  \<^verbatim>\<open>final_rate\<close>. The assignment to \<^verbatim>\<open>target_rate\<close> in the branch without plateau is
  read only under \<^verbatim>\<open>C_COMPENSATION\<close> and is left out. The rates are the conversion of a
  floating value to \<^verbatim>\<open>unsigned long\<close>; for a negative product of nominal rate and
  factor this conversion is undefined in C, and \<open>trapezoid_rates\<close> does not describe
  the source there: the properties below take positive factors.
\<close>

record trapezoid =
  t_initial_rate :: int
  t_final_rate :: int
  t_accelerate_steps :: int
  t_plateau_steps :: int

definition trapezoid_rates :: "block \<Rightarrow> real \<Rightarrow> real \<Rightarrow> int \<times> int" where
  "trapezoid_rates blk entry_factor exit_factor =
     (let initial_rate0 = \<lceil>real_of_int (nominal_rate blk) * entry_factor\<rceil>;
          final_rate0 = \<lceil>real_of_int (nominal_rate blk) * exit_factor\<rceil>;
          target_rate = nominal_rate blk;
          initial_rate1 = (if initial_rate0 < 120 then 120 else initial_rate0);
          final_rate1 = (if final_rate0 < 120 then 120 else final_rate0);
          final_rate2 = (if final_rate1 > target_rate then target_rate else final_rate1)
      in (initial_rate1, final_rate2))"

definition trapezoid_steps :: "block \<Rightarrow> int \<times> int" where
  "trapezoid_steps blk =
     (let target_rate = nominal_rate blk;
          accel = acceleration_st blk;
          accelerate_steps0 =
            \<lceil>estimate_acceleration_distance (real_of_int (initial_rate blk))
               (real_of_int target_rate) (real_of_int accel)\<rceil>;
          decelerate_steps =
            \<lfloor>estimate_acceleration_distance (real_of_int target_rate)
               (real_of_int (final_rate blk)) (real_of_int (- accel))\<rfloor>;
          plateau_steps0 = step_event_count blk - accelerate_steps0 - decelerate_steps
      in if plateau_steps0 < 0
         then (let a1 = \<lceil>intersection_distance (real_of_int (initial_rate blk))
                           (real_of_int (final_rate blk)) (real_of_int accel)
                           (real_of_int (step_event_count blk))\<rceil>;
                   a2 = max a1 0;
                   a3 = min a2 (step_event_count blk)
               in (a3, 0))
         else (accelerate_steps0, plateau_steps0))"

definition trapezoid_locals :: "block \<Rightarrow> real \<Rightarrow> real \<Rightarrow> trapezoid" where
  "trapezoid_locals blk entry_factor exit_factor =
     (case trapezoid_rates blk entry_factor exit_factor of (ir, fr) \<Rightarrow>
      case trapezoid_steps blk of (acs, pls) \<Rightarrow>
        \<lparr>t_initial_rate = ir, t_final_rate = fr,
         t_accelerate_steps = acs, t_plateau_steps = pls\<rparr>)"

text \<open>
  Modelled from the spec: the macros \<^verbatim>\<open>CRITICAL_SECTION_START\<close> and
  \<^verbatim>\<open>CRITICAL_SECTION_END\<close> are defined in Marlin.h, which is missing. The spec describes
  them as a short critical section by interrupt disable: the start saves the interrupt
  enable bit and clears it, the end restores the saved bit.
\<close>

definition CRITICAL_SECTION_START :: "mcu \<Rightarrow> bool \<times> mcu" where
  "CRITICAL_SECTION_START m = (irq_enabled m, m\<lparr>irq_enabled := False\<rparr>)"

definition CRITICAL_SECTION_END :: "bool \<Rightarrow> mcu \<Rightarrow> mcu" where
  "CRITICAL_SECTION_END sreg m = m\<lparr>irq_enabled := sreg\<rparr>"

definition write_field :: "profile_field \<Rightarrow> int \<Rightarrow> block \<Rightarrow> block" where
  "write_field f v blk =
     (case f of
        Accelerate_until \<Rightarrow> blk\<lparr>accelerate_until := v\<rparr>
      | Decelerate_after \<Rightarrow> blk\<lparr>decelerate_after := v\<rparr>
      | Initial_rate \<Rightarrow> blk\<lparr>initial_rate := v\<rparr>
      | Final_rate \<Rightarrow> blk\<lparr>final_rate := v\<rparr>)"

text \<open>A store to a profile field, recorded with the interrupt enable bit of the moment.\<close>

definition store_profile :: "profile_field \<Rightarrow> int \<Rightarrow> block \<times> mcu \<Rightarrow> block \<times> mcu" where
  "store_profile f v bm =
     (case bm of (blk, m) \<Rightarrow>
        (write_field f v blk, m\<lparr>store_log := store_log m @ [(f, irq_enabled m)]\<rparr>))"

definition commit_trapezoid :: "block \<Rightarrow> trapezoid \<Rightarrow> mcu \<Rightarrow> block \<times> mcu" where
  "commit_trapezoid blk t m0 =
     (case CRITICAL_SECTION_START m0 of (sreg, m1) \<Rightarrow>
      case (if busy blk = False
            then store_profile Final_rate (t_final_rate t)
                  (store_profile Initial_rate (t_initial_rate t)
                    (store_profile Decelerate_after (t_accelerate_steps t + t_plateau_steps t)
                      (store_profile Accelerate_until (t_accelerate_steps t) (blk, m1))))
            else (blk, m1)) of (blk', m2) \<Rightarrow>
        (blk', CRITICAL_SECTION_END sreg m2))"

definition calculate_trapezoid_for_block_irq ::
    "block \<Rightarrow> real \<Rightarrow> real \<Rightarrow> mcu \<Rightarrow> block \<times> mcu" where
  "calculate_trapezoid_for_block_irq blk entry_factor exit_factor m =
     commit_trapezoid blk (trapezoid_locals blk entry_factor exit_factor) m"

text \<open>The effect on the block alone, which does not depend on the interrupt state.\<close>

definition calculate_trapezoid_for_block :: "block \<Rightarrow> real \<Rightarrow> real \<Rightarrow> block" where
  "calculate_trapezoid_for_block blk entry_factor exit_factor =
     fst (calculate_trapezoid_for_block_irq blk entry_factor exit_factor mcu_running)"

subsection \<open>Configuration and planner state\<close>

text \<open>
  The configuration gathers the constants of Configuration.h and the variables that
  the G-code dispatcher sets and the planner only reads. The global \<^verbatim>\<open>acceleration\<close>
  is named \<open>default_acceleration\<close> here, since a block has a field of that name.
  \<open>max_feedrate\<close>, \<open>axis_steps_per_unit\<close> and
  \<open>max_acceleration_units_per_sq_second\<close> have \<^verbatim>\<open>3 + EXTRUDERS\<close> entries,
  \<open>retract_acceleration\<close>, \<open>max_e_jerk\<close>, \<open>fanSpeed\<close> and \<open>fan_pin\<close> have
  \<^verbatim>\<open>EXTRUDERS\<close> entries.
\<close>

record config =
  BLOCK_BUFFER_SIZE :: nat
  EXTRUDERS :: nat
  ACTIVE_EXTRUDER :: nat
  dropsegments :: int
  MINIMUM_PLANNER_SPEED :: real
  minsegmenttime :: int
  max_feedrate :: "real list"
  axis_steps_per_unit :: "real list"
  max_acceleration_units_per_sq_second :: "int list"
  minimumfeedrate :: real
  mintravelfeedrate :: real
  default_acceleration :: real
  retract_acceleration :: "real list"
  max_e_jerk :: "real list"
  max_xy_jerk :: real
  max_z_jerk :: real
  extrudemultiply :: int
  fanSpeed :: "int list"
  fan_pin :: "int list"
  follow_me_fan :: bool
  follow_me :: nat
  DISABLE_X :: bool
  DISABLE_Y :: bool
  DISABLE_Z :: bool
  DISABLE_E :: bool

record planner =
  block_buffer :: "block list"
  block_buffer_head :: nat
  block_buffer_tail :: nat
  position :: "int list"
  previous_speed :: "real list"
  previous_nominal_speed :: real
  last_extruder :: nat

text \<open>
  Modelled from the spec: \<^verbatim>\<open>num_blocks_queued\<close> is declared in planner.h, which is
  missing. The spec gives the queue depth as \<open>(head - tail) mod capacity\<close>, which
  \<^verbatim>\<open>movesplanned\<close> of planner.cpp computes with a bit mask.
\<close>

definition movesplanned :: "config \<Rightarrow> planner \<Rightarrow> nat" where
  "movesplanned cfg st =
     nat ((int (block_buffer_head st) - int (block_buffer_tail st) + int (BLOCK_BUFFER_SIZE cfg))
          AND (int (BLOCK_BUFFER_SIZE cfg) - 1))"

definition num_blocks_queued :: "config \<Rightarrow> planner \<Rightarrow> nat" where
  "num_blocks_queued cfg st =
     (block_buffer_head st + BLOCK_BUFFER_SIZE cfg - block_buffer_tail st)
       mod BLOCK_BUFFER_SIZE cfg"

subsection \<open>The reverse pass\<close>

text \<open>
  Block pointers are indices into the ring buffer; \<open>None\<close> is the null pointer. The
  kernel is never called with a null \<open>current\<close> and a non-null \<open>next\<close>.
\<close>

definition planner_reverse_pass_kernel ::
    "nat option \<Rightarrow> nat option \<Rightarrow> nat option \<Rightarrow> block list \<Rightarrow> block list" where
  "planner_reverse_pass_kernel previous current next buf =
     (case current of
        None \<Rightarrow> buf
      | Some c \<Rightarrow>
         (case next of
            None \<Rightarrow> buf
          | Some n \<Rightarrow>
             if entry_speed (buf ! c) \<noteq> max_entry_speed (buf ! c)
             then (let cur = buf ! c;
                       cur' =
                        (if \<not> nominal_length_flag cur \<and> max_entry_speed cur > entry_speed (buf ! n)
                         then cur\<lparr>entry_speed :=
                                min (max_entry_speed cur)
                                  (max_allowable_speed (- acceleration cur)
                                     (entry_speed (buf ! n)) (millimeters cur))\<rparr>
                         else cur\<lparr>entry_speed := max_entry_speed cur\<rparr>)
                   in buf[c := cur'\<lparr>recalculate_flag := True\<rparr>])
             else buf))"

text \<open>
  The loop of \<^verbatim>\<open>planner_reverse_pass\<close>. Besides the buffer it returns the arguments
  of every kernel call, in the order of the calls: the window
  \<^verbatim>\<open>(block[0], block[1], block[2])\<close>. The loop ends only when the index meets the
  tail, so it is a partial function.
\<close>

type_synonym window = "nat option \<times> nat option \<times> nat option"

partial_function (option) reverse_pass_loop ::
    "nat \<Rightarrow> nat \<Rightarrow> nat \<Rightarrow> nat option \<Rightarrow> nat option \<Rightarrow> nat option \<Rightarrow> block list \<Rightarrow> window list
       \<Rightarrow> (block list \<times> window list) option" where
  "reverse_pass_loop N tail block_index b0 b1 b2 buf calls =
     (if block_index \<noteq> tail
      then reverse_pass_loop N tail (prev_block_index N block_index)
             (Some (prev_block_index N block_index)) b0 b1
             (planner_reverse_pass_kernel (Some (prev_block_index N block_index)) b0 b1 buf)
             (calls @ [(Some (prev_block_index N block_index), b0, b1)])
      else Some (buf, calls))"

text \<open>
  The tail is read once, inside a critical section, into a local; here it is the
  tail of the state the pass starts from.
\<close>

definition planner_reverse_pass_calls ::
    "config \<Rightarrow> planner \<Rightarrow> (block list \<times> window list) option" where
  "planner_reverse_pass_calls cfg st =
     (let N = BLOCK_BUFFER_SIZE cfg;
          tail = block_buffer_tail st
      in if ((int (block_buffer_head st) - int tail + int N) AND (int N - 1)) > 3
         then reverse_pass_loop N tail
                (nat ((int (block_buffer_head st) - 3) AND (int N - 1)))
                None None None (block_buffer st) []
         else Some (block_buffer st, []))"

definition planner_reverse_pass :: "config \<Rightarrow> planner \<Rightarrow> planner option" where
  "planner_reverse_pass cfg st =
     map_option (\<lambda>r. st\<lparr>block_buffer := fst r\<rparr>) (planner_reverse_pass_calls cfg st)"

text \<open>
  The blocks that a sequence of kernel calls examines for an entry-speed adjustment:
  the kernel reaches its test only with a non-null \<open>current\<close> and a non-null \<open>next\<close>.
\<close>

definition examined :: "window list \<Rightarrow> nat list" where
  "examined calls =
     concat (map (\<lambda>w. case w of
                        (_, Some c, Some _) \<Rightarrow> [c]
                      | _ \<Rightarrow> []) calls)"

subsection \<open>The forward pass\<close>

text \<open>A non-null \<open>previous\<close> always comes with a non-null \<open>current\<close>.\<close>

definition planner_forward_pass_kernel ::
    "nat option \<Rightarrow> nat option \<Rightarrow> nat option \<Rightarrow> block list \<Rightarrow> block list" where
  "planner_forward_pass_kernel previous current next buf =
     (case previous of
        None \<Rightarrow> buf
      | Some p \<Rightarrow>
         (case current of
            None \<Rightarrow> buf
          | Some c \<Rightarrow>
             if \<not> nominal_length_flag (buf ! p)
             then (if entry_speed (buf ! p) < entry_speed (buf ! c)
                   then (let entry_speed' =
                               min (entry_speed (buf ! c))
                                 (max_allowable_speed (- acceleration (buf ! p))
                                    (entry_speed (buf ! p)) (millimeters (buf ! p)))
                         in if entry_speed (buf ! c) \<noteq> entry_speed'
                            then buf[c := (buf ! c)\<lparr>entry_speed := entry_speed',
                                                    recalculate_flag := True\<rparr>]
                            else buf)
                   else buf)
             else buf))"

partial_function (option) forward_pass_loop ::
    "nat \<Rightarrow> nat \<Rightarrow> nat \<Rightarrow> nat option \<Rightarrow> nat option \<Rightarrow> nat option \<Rightarrow> block list
       \<Rightarrow> (nat option \<times> nat option \<times> block list) option" where
  "forward_pass_loop N head block_index b0 b1 b2 buf =
     (if block_index \<noteq> head
      then forward_pass_loop N head (next_block_index N block_index)
             b1 b2 (Some block_index)
             (planner_forward_pass_kernel b1 b2 (Some block_index) buf)
      else Some (b1, b2, buf))"

definition planner_forward_pass :: "config \<Rightarrow> planner \<Rightarrow> planner option" where
  "planner_forward_pass cfg st =
     map_option
       (\<lambda>r. case r of (b1, b2, buf) \<Rightarrow>
              st\<lparr>block_buffer := planner_forward_pass_kernel b1 b2 None buf\<rparr>)
       (forward_pass_loop (BLOCK_BUFFER_SIZE cfg) (block_buffer_head st) (block_buffer_tail st)
          None None None (block_buffer st))"

subsection \<open>Recalculation of the trapezoids\<close>

definition recalculate_current :: "nat \<Rightarrow> nat \<Rightarrow> block list \<Rightarrow> block list" where
  "recalculate_current c n buf =
     (if recalculate_flag (buf ! c) \<or> recalculate_flag (buf ! n)
      then buf[c := (calculate_trapezoid_for_block (buf ! c)
                       (entry_speed (buf ! c) / nominal_speed (buf ! c))
                       (entry_speed (buf ! n) / nominal_speed (buf ! c)))
                    \<lparr>recalculate_flag := False\<rparr>]
      else buf)"

partial_function (option) recalculate_trapezoids_loop ::
    "nat \<Rightarrow> nat \<Rightarrow> nat \<Rightarrow> nat option \<Rightarrow> block list \<Rightarrow> (nat option \<times> block list) option" where
  "recalculate_trapezoids_loop N head block_index next buf =
     (if block_index \<noteq> head
      then recalculate_trapezoids_loop N head (next_block_index N block_index)
             (Some block_index)
             (case next of
                None \<Rightarrow> buf
              | Some c \<Rightarrow> recalculate_current c block_index buf)
      else Some (next, buf))"

definition recalculate_newest :: "config \<Rightarrow> nat option \<Rightarrow> block list \<Rightarrow> block list" where
  "recalculate_newest cfg next buf =
     (case next of
        None \<Rightarrow> buf
      | Some n \<Rightarrow>
          buf[n := (calculate_trapezoid_for_block (buf ! n)
                      (entry_speed (buf ! n) / nominal_speed (buf ! n))
                      (MINIMUM_PLANNER_SPEED cfg / nominal_speed (buf ! n)))
                   \<lparr>recalculate_flag := False\<rparr>])"

definition planner_recalculate_trapezoids :: "config \<Rightarrow> planner \<Rightarrow> planner option" where
  "planner_recalculate_trapezoids cfg st =
     map_option
       (\<lambda>r. case r of (next, buf) \<Rightarrow> st\<lparr>block_buffer := recalculate_newest cfg next buf\<rparr>)
       (recalculate_trapezoids_loop (BLOCK_BUFFER_SIZE cfg) (block_buffer_head st)
          (block_buffer_tail st) None (block_buffer st))"

definition planner_recalculate :: "config \<Rightarrow> planner \<Rightarrow> planner option" where
  "planner_recalculate cfg st =
     Option.bind (planner_reverse_pass cfg st) (\<lambda>st1.
     Option.bind (planner_forward_pass cfg st1) (\<lambda>st2.
     planner_recalculate_trapezoids cfg st2))"

definition plan_init :: "planner \<Rightarrow> planner" where
  "plan_init st =
     st\<lparr>block_buffer_head := 0, block_buffer_tail := 0,
        position := [0, 0, 0, 0],
        previous_speed := [0, 0, 0, 0],
        previous_nominal_speed := 0\<rparr>"

subsection \<open>plan_buffer_line\<close>

text \<open>
  The function is cut into its consecutive parts. Calls that only drive outputs
  (\<^verbatim>\<open>enable_x\<close> and the like, \<^verbatim>\<open>st_wake_up\<close>) leave the planner state alone and are
  left out.
\<close>

definition quantize_target :: "config \<Rightarrow> real \<Rightarrow> real \<Rightarrow> real \<Rightarrow> real \<Rightarrow> nat \<Rightarrow> int list" where
  "quantize_target cfg x y z e extruder =
     [lround (x * axis_steps_per_unit cfg ! X_AXIS),
      lround (y * axis_steps_per_unit cfg ! Y_AXIS),
      lround (z * axis_steps_per_unit cfg ! Z_AXIS),
      lround (e * axis_steps_per_unit cfg ! (E_AXIS + extruder))]"

text \<open>The rescaling of \<^verbatim>\<open>position[E_AXIS]\<close>; \<^verbatim>\<open>last_extruder\<close> is read, never written.\<close>

definition rescale_position :: "config \<Rightarrow> nat \<Rightarrow> planner \<Rightarrow> planner" where
  "rescale_position cfg extruder st =
     (if last_extruder st \<noteq> extruder \<and>
         axis_steps_per_unit cfg ! (E_AXIS + extruder) \<noteq>
           axis_steps_per_unit cfg ! (E_AXIS + last_extruder st)
      then (let factor = axis_steps_per_unit cfg ! (E_AXIS + extruder) /
                           axis_steps_per_unit cfg ! (E_AXIS + last_extruder st)
            in st\<lparr>position := (position st)
                     [E_AXIS := lround (real_of_int (position st ! E_AXIS) * factor)]\<rparr>)
      else st)"

definition count_steps :: "config \<Rightarrow> int list \<Rightarrow> int list \<Rightarrow> block \<Rightarrow> block" where
  "count_steps cfg target pos blk =
     (let sx = labs (target ! X_AXIS - pos ! X_AXIS);
          sy = labs (target ! Y_AXIS - pos ! Y_AXIS);
          sz = labs (target ! Z_AXIS - pos ! Z_AXIS);
          se = (labs (target ! E_AXIS - pos ! E_AXIS) * extrudemultiply cfg) sdiv 100
      in blk\<lparr>busy := False, steps_x := sx, steps_y := sy, steps_z := sz, steps_e := se,
             step_event_count := max sx (max sy (max sz se))\<rparr>)"

definition set_direction_bit :: "nat \<Rightarrow> int list \<Rightarrow> int list \<Rightarrow> block \<Rightarrow> block" where
  "set_direction_bit axis target pos blk =
     (if target ! axis < pos ! axis
      then blk\<lparr>direction_bits := direction_bits blk OR push_bit axis 1\<rparr>
      else blk)"

definition set_direction :: "config \<Rightarrow> int list \<Rightarrow> int list \<Rightarrow> nat \<Rightarrow> block \<Rightarrow> block" where
  "set_direction cfg target pos extruder blk =
     (set_direction_bit E_AXIS target pos
       (set_direction_bit Z_AXIS target pos
         (set_direction_bit Y_AXIS target pos
           (set_direction_bit X_AXIS target pos
             (blk\<lparr>fan_speed := fanSpeed cfg ! extruder, direction_bits := 0\<rparr>)))))
     \<lparr>active_extruder := extruder\<rparr>"

definition floor_feed_rate :: "config \<Rightarrow> real \<Rightarrow> block \<Rightarrow> real \<times> block" where
  "floor_feed_rate cfg feed_rate blk =
     (if steps_e blk = 0
      then (if feed_rate < mintravelfeedrate cfg then mintravelfeedrate cfg else feed_rate,
            blk\<lparr>travel := True\<rparr>)
      else (if feed_rate < minimumfeedrate cfg then minimumfeedrate cfg else feed_rate,
            blk\<lparr>travel := False\<rparr>))"

definition compute_delta_mm :: "config \<Rightarrow> int list \<Rightarrow> int list \<Rightarrow> nat \<Rightarrow> real list" where
  "compute_delta_mm cfg target pos extruder =
     [real_of_int (target ! X_AXIS - pos ! X_AXIS) / axis_steps_per_unit cfg ! X_AXIS,
      real_of_int (target ! Y_AXIS - pos ! Y_AXIS) / axis_steps_per_unit cfg ! Y_AXIS,
      real_of_int (target ! Z_AXIS - pos ! Z_AXIS) / axis_steps_per_unit cfg ! Z_AXIS,
      (real_of_int (target ! E_AXIS - pos ! E_AXIS) / axis_steps_per_unit cfg ! (E_AXIS + extruder))
         * real_of_int (extrudemultiply cfg) / 100]"

text \<open>The result is the local \<^verbatim>\<open>no_move\<close> and the block with its length.\<close>

definition classify_move :: "config \<Rightarrow> real list \<Rightarrow> block \<Rightarrow> bool \<times> block" where
  "classify_move cfg delta_mm blk0 =
     (let blk = blk0\<lparr>retract := False, restore := False\<rparr>
      in if steps_x blk \<le> dropsegments cfg \<and> steps_y blk \<le> dropsegments cfg \<and>
            steps_z blk \<le> dropsegments cfg
         then (True,
               let blk1 = blk\<lparr>millimeters := fabs (delta_mm ! E_AXIS)\<rparr>
               in if steps_e blk1 \<noteq> 0
                  then (if direction_bits blk1 AND push_bit E_AXIS 1 \<noteq> 0
                        then blk1\<lparr>retract := True\<rparr>
                        else blk1\<lparr>restore := True\<rparr>)
                  else blk1)
         else (False,
               blk\<lparr>millimeters := sqrt (square (delta_mm ! X_AXIS) + square (delta_mm ! Y_AXIS)
                                         + square (delta_mm ! Z_AXIS))\<rparr>))"

text \<open>The \<^verbatim>\<open>SLOWDOWN\<close> section: the value of \<^verbatim>\<open>inverse_second\<close> after it.\<close>

definition slowdown :: "config \<Rightarrow> real list \<Rightarrow> nat \<Rightarrow> real \<Rightarrow> real" where
  "slowdown cfg delta_mm moves_queued inverse_second =
     (if delta_mm ! E_AXIS \<noteq> 0 \<and> delta_mm ! Z_AXIS = 0 \<and>
         (delta_mm ! X_AXIS \<noteq> 0 \<or> delta_mm ! Y_AXIS \<noteq> 0)
      then (let segment_time = lround (1000000 / inverse_second)
            in if moves_queued > 1 \<and> real moves_queued < real (BLOCK_BUFFER_SIZE cfg) * (1/2)
               then (if segment_time < minsegmenttime cfg
                     then 1000000 /
                            real_of_int (segment_time +
                              lround (real_of_int
                                (2 * (minsegmenttime cfg - segment_time) div int moves_queued)))
                     else inverse_second)
               else inverse_second)
      else inverse_second)"

definition limit_factor :: "real \<Rightarrow> real \<Rightarrow> real \<Rightarrow> real" where
  "limit_factor limit speed speed_factor =
     (if fabs speed > limit then min speed_factor (limit / fabs speed) else speed_factor)"

definition axis_speeds :: "real list \<Rightarrow> real \<Rightarrow> real list" where
  "axis_speeds delta_mm inverse_second =
     [delta_mm ! X_AXIS * inverse_second, delta_mm ! Y_AXIS * inverse_second,
      delta_mm ! Z_AXIS * inverse_second, delta_mm ! E_AXIS * inverse_second]"

definition speed_limit_factor :: "config \<Rightarrow> nat \<Rightarrow> real list \<Rightarrow> real" where
  "speed_limit_factor cfg extruder current_speed =
     limit_factor (max_feedrate cfg ! (E_AXIS + extruder) - 0) (current_speed ! E_AXIS)
       (limit_factor (max_feedrate cfg ! Z_AXIS) (current_speed ! Z_AXIS)
         (limit_factor (max_feedrate cfg ! Y_AXIS) (current_speed ! Y_AXIS)
           (limit_factor (max_feedrate cfg ! X_AXIS) (current_speed ! X_AXIS) 1)))"

definition correct_speed :: "real \<Rightarrow> real list \<Rightarrow> block \<Rightarrow> real list \<times> block" where
  "correct_speed speed_factor current_speed blk =
     (if speed_factor < 1
      then (map (\<lambda>v. v * speed_factor) current_speed,
            blk\<lparr>nominal_speed := nominal_speed blk * speed_factor,
                nominal_rate := trunc (real_of_int (nominal_rate blk) * speed_factor)\<rparr>)
      else (current_speed, blk))"

definition axis_steps_per_sqr_second :: "config \<Rightarrow> nat \<Rightarrow> nat \<Rightarrow> int" where
  "axis_steps_per_sqr_second cfg extruder i =
     (let ii = i + (if i = E_AXIS then extruder else 0)
      in trunc (real_of_int (max_acceleration_units_per_sq_second cfg ! ii)
                  * axis_steps_per_unit cfg ! ii))"

definition limit_axis_acceleration :: "int \<Rightarrow> int \<Rightarrow> block \<Rightarrow> block" where
  "limit_axis_acceleration steps cap blk =
     (if real_of_int (acceleration_st blk) * real_of_int steps
           / real_of_int (step_event_count blk) > real_of_int cap
      then blk\<lparr>acceleration_st := cap\<rparr>
      else blk)"

definition set_acceleration :: "config \<Rightarrow> bool \<Rightarrow> nat \<Rightarrow> block \<Rightarrow> block" where
  "set_acceleration cfg no_move extruder blk =
     (let steps_per_mm = real_of_int (step_event_count blk) / millimeters blk;
          blk1 =
           (if no_move
            then blk\<lparr>acceleration_st := \<lceil>retract_acceleration cfg ! extruder * steps_per_mm\<rceil>\<rparr>
            else limit_axis_acceleration (steps_e blk) (axis_steps_per_sqr_second cfg extruder E_AXIS)
                  (limit_axis_acceleration (steps_z blk) (axis_steps_per_sqr_second cfg extruder Z_AXIS)
                    (limit_axis_acceleration (steps_y blk) (axis_steps_per_sqr_second cfg extruder Y_AXIS)
                      (limit_axis_acceleration (steps_x blk) (axis_steps_per_sqr_second cfg extruder X_AXIS)
                        (blk\<lparr>acceleration_st := \<lceil>default_acceleration cfg * steps_per_mm\<rceil>\<rparr>)))))
      in blk1\<lparr>acceleration := real_of_int (acceleration_st blk1) / steps_per_mm,
              acceleration_rate := trunc (real_of_int (acceleration_st blk1) * (8388608 / 1000000))\<rparr>)"

text \<open>
  The safe speed from which the junction analysis of a moving block starts: the value
  given to the local \<^verbatim>\<open>safe_speed\<close> that is declared inside the \<^verbatim>\<open>else\<close> branch.
\<close>

definition safe_floor :: "config \<Rightarrow> real list \<Rightarrow> nat \<Rightarrow> block \<Rightarrow> real" where
  "safe_floor cfg current_speed extruder blk =
     (let vmax_junction0 = max_xy_jerk cfg / 2;
          vmax_junction1 =
            (if fabs (current_speed ! Z_AXIS) > max_z_jerk cfg / 2
             then min vmax_junction0 (max_z_jerk cfg / 2) else vmax_junction0);
          vmax_junction2 =
            (if fabs (current_speed ! E_AXIS) > max_e_jerk cfg ! extruder / 2
             then min vmax_junction1 (max_e_jerk cfg ! extruder / 2) else vmax_junction1)
      in min vmax_junction2 (nominal_speed blk))"

definition jerk_limited_junction :: "config \<Rightarrow> planner \<Rightarrow> real list \<Rightarrow> nat \<Rightarrow> block \<Rightarrow> real" where
  "jerk_limited_junction cfg st current_speed extruder blk =
     (let jerk = sqrt ((current_speed ! X_AXIS - previous_speed st ! X_AXIS)\<^sup>2
                       + (current_speed ! Y_AXIS - previous_speed st ! Y_AXIS)\<^sup>2);
          dz = fabs (current_speed ! Z_AXIS - previous_speed st ! Z_AXIS);
          de = fabs (current_speed ! E_AXIS - previous_speed st ! E_AXIS);
          f1 = (if jerk > max_xy_jerk cfg then max_xy_jerk cfg / jerk else 1);
          f2 = (if dz > max_z_jerk cfg then min f1 (max_z_jerk cfg / dz) else f1);
          f3 = (if de + 0 > max_e_jerk cfg ! extruder
                then min f2 (max_e_jerk cfg ! extruder / de + 0) else f2)
      in min (previous_nominal_speed st) (nominal_speed blk * f3))"

text \<open>
  The junction part. Its first result is the value of the \<^verbatim>\<open>safe_speed\<close> that is
  declared before the \<^verbatim>\<open>if\<close> and passed to \<^verbatim>\<open>calculate_trapezoid_for_block\<close>. The
  branch of a pure E move assigns it. The branch of a moving block declares a second
  \<^verbatim>\<open>safe_speed\<close> and assigns to that one, so the first keeps the indeterminate value
  of an automatic variable without initialiser; this value is the parameter
  \<open>indeterminate\<close>. The branch of a pure E move writes neither
  \<^verbatim>\<open>nominal_length_flag\<close> nor \<^verbatim>\<open>recalculate_flag\<close>.
\<close>

definition junction ::
    "config \<Rightarrow> planner \<Rightarrow> real \<Rightarrow> bool \<Rightarrow> nat \<Rightarrow> real list \<Rightarrow> nat \<Rightarrow> block \<Rightarrow> real \<times> block" where
  "junction cfg st indeterminate no_move moves_queued current_speed extruder blk =
     (if no_move
      then (let s = min (max_e_jerk cfg ! extruder) (nominal_speed blk)
            in (s, blk\<lparr>max_entry_speed := s, entry_speed := s\<rparr>))
      else (let vmax_junction =
                  (if moves_queued > 1 \<and> previous_nominal_speed st > 1 / 10000
                   then jerk_limited_junction cfg st current_speed extruder blk
                   else safe_floor cfg current_speed extruder blk);
                v_allowable = max_allowable_speed (- acceleration blk)
                                (MINIMUM_PLANNER_SPEED cfg) (millimeters blk)
            in (indeterminate,
                blk\<lparr>max_entry_speed := vmax_junction,
                    entry_speed := min vmax_junction v_allowable,
                    nominal_length_flag := (nominal_speed blk \<le> v_allowable),
                    recalculate_flag := True\<rparr>)))"

text \<open>
  The locals that are live at the call of \<^verbatim>\<open>calculate_trapezoid_for_block\<close>, for a
  block that is not dropped.
\<close>

record prepared =
  p_block :: block
  p_no_move :: bool
  p_current_speed :: "real list"
  p_safe_speed :: real

definition prepare_block ::
    "config \<Rightarrow> planner \<Rightarrow> real \<Rightarrow> int list \<Rightarrow> real \<Rightarrow> nat \<Rightarrow> block \<Rightarrow> prepared" where
  "prepare_block cfg st indeterminate target feed_rate extruder blk1 =
     (let pos = position st;
          blk2 = set_direction cfg target pos extruder blk1;
          (feed_rate', blk3) = floor_feed_rate cfg feed_rate blk2;
          delta_mm = compute_delta_mm cfg target pos extruder;
          (no_move, blk4) = classify_move cfg delta_mm blk3;
          inverse_millimeters = 1 / millimeters blk4;
          inverse_second0 = feed_rate' * inverse_millimeters;
          moves_queued = num_blocks_queued cfg st;
          inverse_second = slowdown cfg delta_mm moves_queued inverse_second0;
          blk5 = blk4\<lparr>nominal_speed := millimeters blk4 * inverse_second,
                      nominal_rate := \<lceil>real_of_int (step_event_count blk4) * inverse_second\<rceil>\<rparr>;
          current_speed0 = axis_speeds delta_mm inverse_second;
          speed_factor = speed_limit_factor cfg extruder current_speed0;
          (current_speed, blk6) = correct_speed speed_factor current_speed0 blk5;
          blk7 = set_acceleration cfg no_move extruder blk6;
          (safe_speed, blk8) =
             junction cfg st indeterminate no_move moves_queued current_speed extruder blk7
      in \<lparr>p_block = blk8, p_no_move = no_move, p_current_speed = current_speed,
          p_safe_speed = safe_speed\<rparr>)"

text \<open>
  The wait for a free slot ends only when the stepper interrupt advances the tail.
  The interrupt is not part of this model, so a call on a full buffer does not return:
  the result is \<open>None\<close>. The position that the deltas are taken from is the rescaled
  one. A dropped move returns after the step counts have been written to the slot at
  the head.
\<close>

definition plan_buffer_line ::
    "config \<Rightarrow> real \<Rightarrow> real \<Rightarrow> real \<Rightarrow> real \<Rightarrow> real \<Rightarrow> real \<Rightarrow> nat \<Rightarrow> planner \<Rightarrow> planner option" where
  "plan_buffer_line cfg indeterminate x y z e feed_rate extruder st0 =
     (let next_buffer_head = next_block_index (BLOCK_BUFFER_SIZE cfg) (block_buffer_head st0)
      in if block_buffer_tail st0 = next_buffer_head then None
         else
          (let target = quantize_target cfg x y z e extruder;
               st = rescale_position cfg extruder st0;
               head = block_buffer_head st;
               blk1 = count_steps cfg target (position st) (block_buffer st ! head)
           in if step_event_count blk1 \<le> dropsegments cfg
              then Some (st\<lparr>block_buffer := (block_buffer st)[head := blk1]\<rparr>)
              else
               (let p = prepare_block cfg st indeterminate target feed_rate extruder blk1;
                    blk = calculate_trapezoid_for_block (p_block p)
                            (entry_speed (p_block p) / nominal_speed (p_block p))
                            (p_safe_speed p / nominal_speed (p_block p))
                in planner_recalculate cfg
                     (st\<lparr>block_buffer := (block_buffer st)[head := blk],
                         previous_speed := p_current_speed p,
                         previous_nominal_speed := nominal_speed blk,
                         block_buffer_head := next_buffer_head,
                         position := target\<rparr>))))"

text \<open>The step count that decides whether a move is dropped.\<close>

definition move_step_event_count ::
    "config \<Rightarrow> real \<Rightarrow> real \<Rightarrow> real \<Rightarrow> real \<Rightarrow> nat \<Rightarrow> planner \<Rightarrow> int" where
  "move_step_event_count cfg x y z e extruder st0 =
     (let st = rescale_position cfg extruder st0
      in step_event_count
           (count_steps cfg (quantize_target cfg x y z e extruder) (position st)
              (block_buffer st ! block_buffer_head st)))"

definition plan_set_position :: "config \<Rightarrow> real \<Rightarrow> real \<Rightarrow> real \<Rightarrow> real \<Rightarrow> planner \<Rightarrow> planner" where
  "plan_set_position cfg x y z e st =
     st\<lparr>position := [lround (x * axis_steps_per_unit cfg ! X_AXIS),
                     lround (y * axis_steps_per_unit cfg ! Y_AXIS),
                     lround (z * axis_steps_per_unit cfg ! Z_AXIS),
                     lround (e * axis_steps_per_unit cfg ! (E_AXIS + ACTIVE_EXTRUDER cfg))],
        last_extruder := ACTIVE_EXTRUDER cfg,
        previous_nominal_speed := 0,
        previous_speed := [0, 0, 0, 0]\<rparr>"

definition plan_set_e_position :: "config \<Rightarrow> real \<Rightarrow> planner \<Rightarrow> planner" where
  "plan_set_e_position cfg e st =
     st\<lparr>position := (position st)
          [E_AXIS := lround (e * axis_steps_per_unit cfg ! (E_AXIS + ACTIVE_EXTRUDER cfg))],
        last_extruder := ACTIVE_EXTRUDER cfg\<rparr>"

subsection \<open>check_axes_activity\<close>

text \<open>
  The activity counters of the four axes. They are \<^verbatim>\<open>unsigned char\<close> in the source; a
  queue holds fewer than 256 blocks, so they do not wrap.
\<close>

record activity =
  x_active :: nat
  y_active :: nat
  z_active :: nat
  e_active :: nat

definition count_activity :: "block \<Rightarrow> activity \<Rightarrow> activity" where
  "count_activity blk a =
     a\<lparr>x_active := (if steps_x blk \<noteq> 0 then x_active a + 1 else x_active a),
       y_active := (if steps_y blk \<noteq> 0 then y_active a + 1 else y_active a),
       z_active := (if steps_z blk \<noteq> 0 then z_active a + 1 else z_active a),
       e_active := (if steps_e blk \<noteq> 0 then e_active a + 1 else e_active a)\<rparr>"

partial_function (option) activity_loop ::
    "nat \<Rightarrow> nat \<Rightarrow> nat \<Rightarrow> block list \<Rightarrow> activity \<Rightarrow> activity option" where
  "activity_loop N head block_index buf a =
     (if block_index \<noteq> head
      then activity_loop N head ((block_index + 1) AND (N - 1)) buf
             (count_activity (buf ! block_index) a)
      else Some a)"

text \<open>
  The local array \<^verbatim>\<open>tail_fan_speed\<close> before the loop over the extruders: a copy of
  \<^verbatim>\<open>fanSpeed\<close>, in which the entry of the tail block's extruder is replaced by the fan
  speed of the tail block when the queue is not empty.
\<close>

definition initial_tail_fan_speed :: "config \<Rightarrow> planner \<Rightarrow> int list" where
  "initial_tail_fan_speed cfg st =
     (if block_buffer_tail st \<noteq> block_buffer_head st
      then (fanSpeed cfg)
             [active_extruder (block_buffer st ! block_buffer_tail st) :=
                fan_speed (block_buffer st ! block_buffer_tail st)]
      else fanSpeed cfg)"

text \<open>
  The loop over the extruders, with the arrays \<^verbatim>\<open>tail_fan_speed\<close> and \<^verbatim>\<open>fanSpeed\<close>
  and the \<^verbatim>\<open>analogWrite\<close> calls made so far, each a pin and a value.
\<close>

function fan_loop ::
    "config \<Rightarrow> nat \<Rightarrow> int list \<Rightarrow> int list \<Rightarrow> (int \<times> int) list
       \<Rightarrow> int list \<times> int list \<times> (int \<times> int) list" where
  "fan_loop cfg e tail_fan_speed fanSpeed' writes =
     (if e < EXTRUDERS cfg
      then (let follows = (follow_me_fan cfg \<and> follow_me cfg AND push_bit e 1 \<noteq> 0);
                tail_fan_speed1 =
                  (if follows
                   then tail_fan_speed[e := tail_fan_speed ! ACTIVE_EXTRUDER cfg]
                   else tail_fan_speed);
                fanSpeed1 =
                  (if follows then fanSpeed'[e := fanSpeed' ! ACTIVE_EXTRUDER cfg] else fanSpeed')
            in fan_loop cfg (e + 1) tail_fan_speed1 fanSpeed1
                 (if fan_pin cfg ! e > - 1
                  then writes @ [(fan_pin cfg ! e, tail_fan_speed1 ! e)]
                  else writes))
      else (tail_fan_speed, fanSpeed', writes))"
  by pat_completeness auto
termination
  by (relation "measure (\<lambda>(cfg, e, t, f, w). EXTRUDERS cfg - e)") auto

declare fan_loop.simps [simp del]

record outputs =
  disable_x_called :: bool
  disable_y_called :: bool
  disable_z_called :: bool
  disable_e_called :: bool
  analog_writes :: "(int \<times> int) list"
  fanSpeed_after :: "int list"

definition check_axes_activity :: "config \<Rightarrow> planner \<Rightarrow> outputs option" where
  "check_axes_activity cfg st =
     map_option
       (\<lambda>a. case fan_loop cfg 0 (initial_tail_fan_speed cfg st) (fanSpeed cfg) [] of
              (t, f, w) \<Rightarrow>
                \<lparr>disable_x_called = (DISABLE_X cfg \<and> x_active a = 0),
                 disable_y_called = (DISABLE_Y cfg \<and> y_active a = 0),
                 disable_z_called = (DISABLE_Z cfg \<and> z_active a = 0),
                 disable_e_called = (DISABLE_E cfg \<and> e_active a = 0),
                 analog_writes = w,
                 fanSpeed_after = f\<rparr>)
       (if block_buffer_tail st \<noteq> block_buffer_head st
        then activity_loop (BLOCK_BUFFER_SIZE cfg) (block_buffer_head st) (block_buffer_tail st)
               (block_buffer st) \<lparr>x_active = 0, y_active = 0, z_active = 0, e_active = 0\<rparr>
        else Some \<lparr>x_active = 0, y_active = 0, z_active = 0, e_active = 0\<rparr>)"

subsection \<open>What the look-ahead leaves alone\<close>

text \<open>
  A block without the fields that the look-ahead and the trapezoid generator rewrite:
  two blocks with the same image agree on every other field.
\<close>

definition unplanned :: "block \<Rightarrow> block" where
  "unplanned blk = blk\<lparr>entry_speed := 0, recalculate_flag := False, accelerate_until := 0,
     decelerate_after := 0, initial_rate := 0, final_rate := 0\<rparr>"

text \<open>
  The locals of a call of \<open>plan_buffer_line\<close> at its call of
  \<open>calculate_trapezoid_for_block\<close>, when the move is not dropped.
\<close>

definition prepared_move ::
    "config \<Rightarrow> real \<Rightarrow> real \<Rightarrow> real \<Rightarrow> real \<Rightarrow> real \<Rightarrow> real \<Rightarrow> nat \<Rightarrow> planner \<Rightarrow> prepared" where
  "prepared_move cfg indeterminate x y z e feed_rate extruder st0 =
     (let target = quantize_target cfg x y z e extruder;
          st = rescale_position cfg extruder st0
      in prepare_block cfg st indeterminate target feed_rate extruder
           (count_steps cfg target (position st) (block_buffer st ! block_buffer_head st)))"

subsection \<open>Example configuration and blocks\<close>

text \<open>
  The block of a move of 10 mm along X at 50 mm/s with 80 steps per mm and an
  acceleration of 3000 mm per second squared, in a slot of the buffer that has not been used before:
  the stored rates are still zero.
\<close>

definition example_block :: block where
  "example_block = zero_block\<lparr>nominal_rate := 4000, acceleration_st := 240000,
      step_event_count := 800\<rparr>"

text \<open>The block of the same move at 1 mm/s: 80 steps per second.\<close>

definition slow_block :: block where
  "slow_block = zero_block\<lparr>nominal_rate := 80, acceleration_st := 240000,
      step_event_count := 800\<rparr>"

text \<open>A block that the stepper has claimed, with its profile.\<close>

definition busy_block :: block where
  "busy_block = example_block\<lparr>accelerate_until := 34, decelerate_after := 767,
      initial_rate := 800, final_rate := 800, busy := True\<rparr>"

text \<open>
  The constants of the scenarios of the specification, with two extruders of 100 and
  140 steps per mm.
\<close>

definition example_config :: config where
  "example_config = \<lparr>BLOCK_BUFFER_SIZE = 16, EXTRUDERS = 2, ACTIVE_EXTRUDER = 0,
     dropsegments = 5, MINIMUM_PLANNER_SPEED = 1/20, minsegmenttime = 20000,
     max_feedrate = [500, 500, 5, 45, 45],
     axis_steps_per_unit = [80, 80, 2560, 100, 140],
     max_acceleration_units_per_sq_second = [9000, 9000, 100, 10000, 10000],
     minimumfeedrate = 0, mintravelfeedrate = 0, default_acceleration = 3000,
     retract_acceleration = [3000, 3000], max_e_jerk = [5, 5], max_xy_jerk = 20,
     max_z_jerk = 2/5, extrudemultiply = 100, fanSpeed = [200, 0], fan_pin = [6, 7],
     follow_me_fan = False, follow_me = 0,
     DISABLE_X = False, DISABLE_Y = False, DISABLE_Z = False, DISABLE_E = False\<rparr>"

text \<open>The planner after \<open>plan_init\<close> on a zero-initialised buffer of 16 blocks.\<close>

definition empty_queue :: planner where
  "empty_queue = \<lparr>block_buffer = replicate 16 zero_block,
     block_buffer_head = 0, block_buffer_tail = 0,
     position = [0, 0, 0, 0], previous_speed = [0, 0, 0, 0], previous_nominal_speed = 0,
     last_extruder = 0\<rparr>"

text \<open>A queue of \<open>d\<close> blocks in the slots 0 to \<open>d - 1\<close>.\<close>

definition example_queue :: "nat \<Rightarrow> planner" where
  "example_queue d = \<lparr>block_buffer = replicate 16 example_block,
     block_buffer_head = d, block_buffer_tail = 0,
     position = [0, 0, 0, 0], previous_speed = [0, 0, 0, 0], previous_nominal_speed = 0,
     last_extruder = 0\<rparr>"

text \<open>
  The planner after \<open>plan_set_position\<close> to E = 10 mm with extruder 0 active: 1000 steps
  at 100 steps per mm.
\<close>

definition swap_state :: planner where
  "swap_state = plan_set_position example_config 0 0 0 10 empty_queue"

text \<open>
  A queue of two blocks of extruder 0: the tail block was planned with a fan speed of
  100, the newest block with the fan speed 200 that is configured now.
\<close>

definition fan_queue :: planner where
  "fan_queue = \<lparr>block_buffer =
       [example_block\<lparr>fan_speed := 100\<rparr>, example_block\<lparr>fan_speed := 200\<rparr>]
         @ replicate 14 zero_block,
     block_buffer_head = 2, block_buffer_tail = 0,
     position = [0, 0, 0, 0], previous_speed = [0, 0, 0, 0], previous_nominal_speed = 0,
     last_extruder = 0\<rparr>"

text \<open>
  A configuration with a minimal segment time of one microsecond and feed-rate floors of
  1 mm/s, and a queue of three blocks after three moves of 10 mm along X at 50 mm/s.
\<close>

definition hasty_config :: config where
  "hasty_config = example_config\<lparr>minsegmenttime := 1, minimumfeedrate := 1,
     mintravelfeedrate := 1\<rparr>"

definition draining_queue :: planner where
  "draining_queue = \<lparr>block_buffer = replicate 16 example_block,
     block_buffer_head = 3, block_buffer_tail = 0,
     position = [2400, 0, 0, 0], previous_speed = [50, 0, 0, 0], previous_nominal_speed = 50,
     last_extruder = 0\<rparr>"

subsection \<open>The course of the reverse loop\<close>

text \<open>
  The windows that the reverse loop passes to its kernel when it starts \<open>m\<close> slots
  after the tail \<open>t\<close> with the window \<open>(_, b0, b1)\<close>.
\<close>

fun reverse_windows :: "nat \<Rightarrow> nat \<Rightarrow> nat \<Rightarrow> nat option \<Rightarrow> nat option \<Rightarrow> window list" where
  "reverse_windows N t 0 b0 b1 = []"
| "reverse_windows N t (Suc m) b0 b1 =
     (Some ((t + m) mod N), b0, b1) # reverse_windows N t m (Some ((t + m) mod N)) b0"

section \<open>Properties\<close>

subsection \<open>The trapezoid of a block\<close>

lemmas trapezoid_eval_defs =
  calculate_trapezoid_for_block_def calculate_trapezoid_for_block_irq_def commit_trapezoid_def
  trapezoid_locals_def trapezoid_rates_def trapezoid_steps_def mcu_running_def
  CRITICAL_SECTION_START_def CRITICAL_SECTION_END_def store_profile_def write_field_def
  estimate_acceleration_distance_def intersection_distance_def

lemma calculate_trapezoid_busy:
  "busy blk \<Longrightarrow> calculate_trapezoid_for_block blk ef xf = blk"
  by (simp add: calculate_trapezoid_for_block_def calculate_trapezoid_for_block_irq_def
      commit_trapezoid_def CRITICAL_SECTION_START_def CRITICAL_SECTION_END_def)

lemma calculate_trapezoid_not_busy:
  "\<not> busy blk \<Longrightarrow>
     calculate_trapezoid_for_block blk ef xf =
       blk\<lparr>accelerate_until := fst (trapezoid_steps blk),
           decelerate_after := fst (trapezoid_steps blk) + snd (trapezoid_steps blk),
           initial_rate := fst (trapezoid_rates blk ef xf),
           final_rate := snd (trapezoid_rates blk ef xf)\<rparr>"
  by (simp add: calculate_trapezoid_for_block_def calculate_trapezoid_for_block_irq_def
      commit_trapezoid_def CRITICAL_SECTION_START_def CRITICAL_SECTION_END_def
      store_profile_def write_field_def trapezoid_locals_def split: prod.splits)

lemma ceiling_scaled_le:
  assumes "0 \<le> n" "f \<le> 1"
  shows "\<lceil>real_of_int n * f\<rceil> \<le> n"
proof -
  have "real_of_int n * f \<le> real_of_int n * 1"
    using assms by (intro mult_left_mono) simp_all
  then show ?thesis by (simp add: ceiling_le_iff)
qed

text \<open>
  C1. The claim is that the acceleration and deceleration distances are computed from
  the rates just derived from the factors. The code computes them from the rates that
  are stored in the block when the function is entered. For the example block, whose
  stored rates are 0, and factors 1/5 and 1/5 the new rates are 800 and 800 and the
  plateau is not negative, so \<open>accelerate_until\<close> is the acceleration distance and
  \<open>decelerate_after\<close> is the step count less the deceleration distance: the code yields
  34 and 800 - 33, the formulas of the claim yield 32 and 32. For every block, the step
  indices that a call commits are the same for all factors.
\<close>

theorem trapezoid_uses_stored_rates:
  "accelerate_until (calculate_trapezoid_for_block blk entry_factor exit_factor)
     = accelerate_until (calculate_trapezoid_for_block blk entry_factor' exit_factor')
   \<and> decelerate_after (calculate_trapezoid_for_block blk entry_factor exit_factor)
     = decelerate_after (calculate_trapezoid_for_block blk entry_factor' exit_factor')
   \<and> initial_rate (calculate_trapezoid_for_block example_block (1/5) (1/5)) = 800
   \<and> final_rate (calculate_trapezoid_for_block example_block (1/5) (1/5)) = 800
   \<and> accelerate_until (calculate_trapezoid_for_block example_block (1/5) (1/5)) = 34
   \<and> decelerate_after (calculate_trapezoid_for_block example_block (1/5) (1/5)) = 800 - 33
   \<and> \<lceil>((4000::real)\<^sup>2 - 800\<^sup>2) / (2 * 240000)\<rceil> = 32
   \<and> \<lfloor>((800::real)\<^sup>2 - 4000\<^sup>2) / (- 2 * 240000)\<rfloor> = 32"
proof -
  have "accelerate_until (calculate_trapezoid_for_block blk entry_factor exit_factor)
     = accelerate_until (calculate_trapezoid_for_block blk entry_factor' exit_factor')
   \<and> decelerate_after (calculate_trapezoid_for_block blk entry_factor exit_factor)
     = decelerate_after (calculate_trapezoid_for_block blk entry_factor' exit_factor')"
    by (cases "busy blk")
       (simp_all add: calculate_trapezoid_busy calculate_trapezoid_not_busy)
  moreover have
   "initial_rate (calculate_trapezoid_for_block example_block (1/5) (1/5)) = 800
   \<and> final_rate (calculate_trapezoid_for_block example_block (1/5) (1/5)) = 800
   \<and> accelerate_until (calculate_trapezoid_for_block example_block (1/5) (1/5)) = 34
   \<and> decelerate_after (calculate_trapezoid_for_block example_block (1/5) (1/5)) = 800 - 33
   \<and> \<lceil>((4000::real)\<^sup>2 - 800\<^sup>2) / (2 * 240000)\<rceil> = 32
   \<and> \<lfloor>((800::real)\<^sup>2 - 4000\<^sup>2) / (- 2 * 240000)\<rfloor> = 32"
    by (simp add: trapezoid_eval_defs example_block_def zero_block_def Let_def)
  ultimately show ?thesis by blast
qed

text \<open>
  C5, as stated, fails: a block whose nominal rate is below 120 steps per second gets
  an initial rate of 120, which is above its nominal rate.
\<close>

theorem rate_bounds_counterexample:
  "\<not> (120 \<le> initial_rate (calculate_trapezoid_for_block slow_block 1 1)
      \<and> initial_rate (calculate_trapezoid_for_block slow_block 1 1)
          \<le> nominal_rate (calculate_trapezoid_for_block slow_block 1 1))"
  by (simp add: trapezoid_eval_defs slow_block_def zero_block_def Let_def)

text \<open>
  C5, amended. For a block that is not busy and whose nominal rate is at least 120,
  after \<open>calculate_trapezoid_for_block\<close> with an entry factor in (0,1] and any positive
  exit factor, also one above 1, the initial and the final rate lie between 120 and the
  nominal rate; when the nominal rate is 120, both are 120.
\<close>

theorem rate_bounds:
  assumes "\<not> busy blk" and "120 \<le> nominal_rate blk"
    and "0 < entry_factor" "entry_factor \<le> 1" "0 < exit_factor"
  shows "120 \<le> initial_rate (calculate_trapezoid_for_block blk entry_factor exit_factor)
       \<and> initial_rate (calculate_trapezoid_for_block blk entry_factor exit_factor)
           \<le> nominal_rate (calculate_trapezoid_for_block blk entry_factor exit_factor)
       \<and> 120 \<le> final_rate (calculate_trapezoid_for_block blk entry_factor exit_factor)
       \<and> final_rate (calculate_trapezoid_for_block blk entry_factor exit_factor)
           \<le> nominal_rate (calculate_trapezoid_for_block blk entry_factor exit_factor)
       \<and> (nominal_rate blk = 120 \<longrightarrow>
            initial_rate (calculate_trapezoid_for_block blk entry_factor exit_factor) = 120
          \<and> final_rate (calculate_trapezoid_for_block blk entry_factor exit_factor) = 120)"
proof -
  define n where "n = nominal_rate blk"
  define i where "i = \<lceil>real_of_int n * entry_factor\<rceil>"
  define f where "f = \<lceil>real_of_int n * exit_factor\<rceil>"
  have n0: "0 \<le> n" "120 \<le> n" using assms(2) by (simp_all add: n_def)
  have i: "i \<le> n" unfolding i_def using n0(1) assms(4) by (rule ceiling_scaled_le)
  have rates: "trapezoid_rates blk entry_factor exit_factor =
      (if i < 120 then 120 else i,
       if (if f < 120 then 120 else f) > n then n else (if f < 120 then 120 else f))"
    by (simp add: trapezoid_rates_def Let_def i_def f_def n_def)
  have res: "initial_rate (calculate_trapezoid_for_block blk entry_factor exit_factor)
               = (if i < 120 then 120 else i)"
    "final_rate (calculate_trapezoid_for_block blk entry_factor exit_factor)
               = (if (if f < 120 then 120 else f) > n then n else (if f < 120 then 120 else f))"
    "nominal_rate (calculate_trapezoid_for_block blk entry_factor exit_factor) = n"
    by (simp_all add: calculate_trapezoid_not_busy[OF assms(1)] rates n_def)
  show ?thesis
    unfolding res n_def[symmetric] using i n0 by auto
qed

theorem rate_bounds_witness:
  "120 \<le> initial_rate (calculate_trapezoid_for_block example_block (1/5) 2)
   \<and> initial_rate (calculate_trapezoid_for_block example_block (1/5) 2)
       \<le> nominal_rate (calculate_trapezoid_for_block example_block (1/5) 2)
   \<and> 120 \<le> final_rate (calculate_trapezoid_for_block example_block (1/5) 2)
   \<and> final_rate (calculate_trapezoid_for_block example_block (1/5) 2)
       \<le> nominal_rate (calculate_trapezoid_for_block example_block (1/5) 2)
   \<and> \<lceil>real_of_int (nominal_rate example_block) * 2\<rceil> = 8000
   \<and> final_rate (calculate_trapezoid_for_block example_block (1/5) 2) = 4000"
proof -
  have h: "\<not> busy example_block" "120 \<le> nominal_rate example_block"
    by (simp_all add: example_block_def zero_block_def)
  have k: "(0::real) < 1/5" "(1::real)/5 \<le> 1" "(0::real) < 2"
    by simp_all
  have v: "\<lceil>real_of_int (nominal_rate example_block) * 2\<rceil> = 8000"
    "final_rate (calculate_trapezoid_for_block example_block (1/5) 2) = 4000"
    by (simp_all add: trapezoid_eval_defs example_block_def zero_block_def Let_def)
  from rate_bounds [OF h k] v show ?thesis by blast
qed

text \<open>
  C6. A call of \<open>calculate_trapezoid_for_block\<close> on a busy block leaves the block as it
  is, so \<open>accelerate_until\<close>, \<open>decelerate_after\<close>, \<open>initial_rate\<close> and \<open>final_rate\<close> keep
  their values, and makes no store. On a block that is not busy it makes exactly four
  stores, one to each of these fields, each with the interrupts disabled, whatever the
  interrupt state at the call, which is restored at the end.
\<close>

theorem busy_block_frozen:
  "(busy blk \<longrightarrow>
      calculate_trapezoid_for_block_irq blk entry_factor exit_factor m = (blk, m)
    \<and> calculate_trapezoid_for_block blk entry_factor exit_factor = blk)
   \<and> (\<not> busy blk \<longrightarrow>
      store_log (snd (calculate_trapezoid_for_block_irq blk entry_factor exit_factor m)) =
        store_log m @ [(Accelerate_until, False), (Decelerate_after, False),
                       (Initial_rate, False), (Final_rate, False)]
    \<and> irq_enabled (snd (calculate_trapezoid_for_block_irq blk entry_factor exit_factor m))
        = irq_enabled m)"
  by (simp add: calculate_trapezoid_busy calculate_trapezoid_for_block_irq_def
      commit_trapezoid_def CRITICAL_SECTION_START_def CRITICAL_SECTION_END_def
      store_profile_def split: prod.splits)

theorem busy_block_frozen_witness:
  "calculate_trapezoid_for_block_irq busy_block 1 1 mcu_running = (busy_block, mcu_running)
   \<and> calculate_trapezoid_for_block busy_block 1 1 = busy_block
   \<and> store_log (snd (calculate_trapezoid_for_block_irq example_block 1 1 mcu_running))
       = [(Accelerate_until, False), (Decelerate_after, False),
          (Initial_rate, False), (Final_rate, False)]"
proof -
  have b: "busy busy_block" by (simp add: busy_block_def)
  have n: "\<not> busy example_block" by (simp add: example_block_def zero_block_def)
  have e: "store_log mcu_running = []" by (simp add: mcu_running_def)
  from busy_block_frozen [of busy_block 1 1 mcu_running]
       busy_block_frozen [of example_block 1 1 mcu_running] b n e
  show ?thesis by simp
qed

subsection \<open>Ring indices and the loops over the queue\<close>

lemma int_and_mask: "(x::int) AND (2 ^ k - 1) = x mod 2 ^ k"
proof -
  have "x AND (2 ^ k - 1) = x AND mask k" by (simp only: mask_eq_exp_minus_1)
  also have "\<dots> = take_bit k x" by (simp only: take_bit_eq_mask)
  also have "\<dots> = x mod 2 ^ k" by (simp only: take_bit_eq_mod)
  finally show ?thesis .
qed

lemma nat_and_mask: "(x::nat) AND (2 ^ k - 1) = x mod 2 ^ k"
proof -
  have "x AND (2 ^ k - 1) = x AND mask k" by (simp only: mask_eq_exp_minus_1)
  also have "\<dots> = take_bit k x" by (simp only: take_bit_eq_mask)
  also have "\<dots> = x mod 2 ^ k" by (simp only: take_bit_eq_mod)
  finally show ?thesis .
qed

lemma mod_small_shift: "x < 2 * N \<Longrightarrow> (x::nat) mod N = (if x < N then x else x - N)"
  by (metis add_diff_inverse_nat le_mod_geq mod_less mult_2 nat_add_left_cancel_less not_less)

lemma prev_block_index_mod:
  assumes "t < N" "m < N"
  shows "prev_block_index N ((t + Suc m) mod N) = (t + m) mod N"
proof -
  have a: "t + Suc m < 2 * N" "t + m < 2 * N" using assms by simp_all
  show ?thesis
    unfolding prev_block_index_def Let_def mod_small_shift[OF a(1)] mod_small_shift[OF a(2)]
    using assms by auto
qed

lemma next_block_index_mod:
  assumes "i < N"
  shows "next_block_index N i = (i + 1) mod (N::nat)"
  using assms by (auto simp: next_block_index_def Let_def)

lemma shifted_neq:
  assumes "t < N" "0 < m" "m < N"
  shows "(t + m) mod N \<noteq> (t::nat)"
proof -
  have a: "t + m < 2 * N" using assms by simp
  show ?thesis unfolding mod_small_shift[OF a] using assms by auto
qed

lemma unplanned_calculate_trapezoid:
  "unplanned (calculate_trapezoid_for_block blk ef xf) = unplanned blk"
  by (cases "busy blk")
     (simp_all add: calculate_trapezoid_busy calculate_trapezoid_not_busy unplanned_def)

lemma map_update_same:
  assumes "f y = f (xs ! i)"
  shows "map f (xs[i := y]) = map f xs"
  by (metis assms list_update_id map_update)

lemma unplanned_reverse_kernel:
  "map unplanned (planner_reverse_pass_kernel p c n buf) = map unplanned buf"
  by (auto simp: planner_reverse_pass_kernel_def Let_def unplanned_def
      intro!: map_update_same split: option.splits)

lemma unplanned_forward_kernel:
  "map unplanned (planner_forward_pass_kernel p c n buf) = map unplanned buf"
  by (auto simp: planner_forward_pass_kernel_def Let_def unplanned_def
      intro!: map_update_same split: option.splits)

lemma unplanned_flag [simp]:
  "unplanned (blk\<lparr>recalculate_flag := v\<rparr>) = unplanned blk"
  by (simp add: unplanned_def)

lemma unplanned_recalculate_current:
  "map unplanned (recalculate_current c n buf) = map unplanned buf"
  by (auto simp: recalculate_current_def unplanned_calculate_trapezoid intro!: map_update_same)

lemma unplanned_recalculate_newest:
  "map unplanned (recalculate_newest cfg nxt buf) = map unplanned buf"
  by (auto simp: recalculate_newest_def unplanned_calculate_trapezoid
      intro!: map_update_same split: option.splits)

lemma reverse_pass_loop_windows:
  assumes "t < N" "m < N"
  shows "\<exists>buf'. reverse_pass_loop N t ((t + m) mod N) b0 b1 b2 buf calls
                  = Some (buf', calls @ reverse_windows N t m b0 b1)
              \<and> map unplanned buf' = map unplanned buf"
  using assms(2)
proof (induction m arbitrary: b0 b1 b2 buf calls)
  case 0
  then show ?case using assms(1) by (subst reverse_pass_loop.simps) simp
next
  case (Suc m)
  have m: "m < N" using Suc.prems by simp
  have neq: "Suc (t + m) mod N \<noteq> t"
    using shifted_neq[OF assms(1) _ Suc.prems] by simp
  have p: "prev_block_index N (Suc (t + m) mod N) = (t + m) mod N"
    using prev_block_index_mod[OF assms(1) m] by simp
  from Suc.IH[OF m] obtain buf' where
    "reverse_pass_loop N t ((t + m) mod N) (Some ((t + m) mod N)) b0 b1
       (planner_reverse_pass_kernel (Some ((t + m) mod N)) b0 b1 buf)
       (calls @ [(Some ((t + m) mod N), b0, b1)])
     = Some (buf', (calls @ [(Some ((t + m) mod N), b0, b1)])
                     @ reverse_windows N t m (Some ((t + m) mod N)) b0)"
    and "map unplanned buf' =
           map unplanned (planner_reverse_pass_kernel (Some ((t + m) mod N)) b0 b1 buf)"
    by blast
  then show ?case
    by (subst reverse_pass_loop.simps) (simp add: neq p unplanned_reverse_kernel)
qed

lemma examined_Cons:
  "examined (w # ws) = (case w of (_, Some c, Some _) \<Rightarrow> [c] | _ \<Rightarrow> []) @ examined ws"
  by (simp add: examined_def)

lemma examined_Nil: "examined [] = []"
  by (simp add: examined_def)

lemma rev_upt_Suc: "0 < m \<Longrightarrow> rev [1..<Suc m] = m # rev [1..<m]"
  by simp

lemma examined_windows_full:
  "examined (reverse_windows N t m (Some a) (Some b)) =
     (if m = 0 then [] else a # map (\<lambda>j. (t + j) mod N) (rev [1..<m]))"
proof (induction m arbitrary: a b)
  case 0
  then show ?case by (simp add: examined_Nil)
next
  case (Suc m)
  show ?case
    by (cases "m = 0") (simp_all add: examined_Cons Suc.IH examined_Nil)
qed

lemma examined_windows_one:
  "examined (reverse_windows N t m (Some a) None) = map (\<lambda>j. (t + j) mod N) (rev [1..<m])"
  by (cases m) (simp_all add: examined_Cons examined_Nil examined_windows_full)

lemma examined_windows_none:
  "examined (reverse_windows N t m None None) = map (\<lambda>j. (t + j) mod N) (rev [1..<m - 1])"
  by (cases m) (simp_all add: examined_Cons examined_Nil examined_windows_one)

lemma movesplanned_mod:
  assumes "BLOCK_BUFFER_SIZE cfg = 2 ^ k" "block_buffer_head st < 2 ^ k" "block_buffer_tail st < 2 ^ k"
  shows "(int (block_buffer_head st) - int (block_buffer_tail st) + int (BLOCK_BUFFER_SIZE cfg))
            AND (int (BLOCK_BUFFER_SIZE cfg) - 1)
         = int (num_blocks_queued cfg st)"
proof -
  have "int (block_buffer_head st) - int (block_buffer_tail st) + int (2 ^ k)
         = int (block_buffer_head st + 2 ^ k - block_buffer_tail st)"
    using assms(3) by simp
  then show ?thesis
    by (simp add: assms(1) int_and_mask num_blocks_queued_def zmod_int)
qed


lemma planner_reverse_pass_calls_result:
  assumes "BLOCK_BUFFER_SIZE cfg = 2 ^ k"
    and "block_buffer_head st < BLOCK_BUFFER_SIZE cfg"
    and "block_buffer_tail st < BLOCK_BUFFER_SIZE cfg"
  shows "\<exists>buf calls. planner_reverse_pass_calls cfg st = Some (buf, calls)
           \<and> examined calls =
               map (\<lambda>j. (block_buffer_tail st + j) mod BLOCK_BUFFER_SIZE cfg)
                 (rev [1..<num_blocks_queued cfg st - 4])
           \<and> map unplanned buf = map unplanned (block_buffer st)"
proof -
  define N where "N = BLOCK_BUFFER_SIZE cfg"
  define h where "h = block_buffer_head st"
  define t where "t = block_buffer_tail st"
  define d where "d = num_blocks_queued cfg st"
  have N: "N = 2 ^ k" and h: "h < N" and t: "t < N"
    using assms by (simp_all add: N_def h_def t_def)
  have dN: "d < N" and d: "d = (h + N - t) mod N"
    using N by (simp_all add: d_def num_blocks_queued_def N_def h_def t_def)
  have depth: "(int h - int t + int N) AND (int N - 1) = int d"
    using movesplanned_mod[of cfg k st] assms by (simp add: N_def h_def t_def d_def)
  show ?thesis
  proof (cases "3 < d")
    case False
    then have "rev [1..<d - 4] = []" by simp
    moreover have "planner_reverse_pass_calls cfg st = Some (block_buffer st, [])"
      using False depth
      by (simp add: planner_reverse_pass_calls_def Let_def N_def[symmetric] h_def[symmetric]
          t_def[symmetric])
    ultimately show ?thesis
      by (simp add: examined_Nil d_def[symmetric])
  next
    case True
    have "int ((t + (d - 3)) mod N) = (int t + (int d - 3)) mod int N"
      using True by (simp add: zmod_int of_nat_diff add_diff_eq)
    also have "int d = (int h + int N - int t) mod int N"
      using t by (simp add: d zmod_int of_nat_diff)
    also have "(int t + ((int h + int N - int t) mod int N - 3)) mod int N
                 = (int h - 3) mod int N"
    proof -
      have "(int t + ((int h + int N - int t) mod int N - 3)) mod int N
              = ((int h + int N - int t) mod int N + (int t - 3)) mod int N"
        by (simp add: algebra_simps)
      also have "\<dots> = ((int h + int N - int t) + (int t - 3)) mod int N"
        by (simp only: mod_add_left_eq)
      also have "\<dots> = (int h - 3 + int N) mod int N"
        by (simp add: algebra_simps)
      also have "\<dots> = (int h - 3) mod int N"
        by simp
      finally show ?thesis .
    qed
    finally have "int ((t + (d - 3)) mod N) = (int h - 3) AND (int N - 1)"
      by (simp add: N int_and_mask)
    then have start: "nat ((int h - 3) AND (int N - 1)) = (t + (d - 3)) mod N"
      by (metis nat_int)
    have m: "d - 3 < N" using dN by simp
    from reverse_pass_loop_windows[OF t m, of None None None "block_buffer st" "[]"]
    obtain buf' where
      "reverse_pass_loop N t ((t + (d - 3)) mod N) None None None (block_buffer st) []
         = Some (buf', reverse_windows N t (d - 3) None None)"
      and u: "map unplanned buf' = map unplanned (block_buffer st)"
      by auto
    then have "planner_reverse_pass_calls cfg st
                 = Some (buf', reverse_windows N t (d - 3) None None)"
      using True depth start
      by (simp add: planner_reverse_pass_calls_def Let_def N_def[symmetric] h_def[symmetric]
          t_def[symmetric])
    moreover have "d - 3 - 1 = d - 4" by simp
    ultimately show ?thesis
      using u
      by (simp add: examined_windows_none d_def[symmetric] t_def[symmetric] N_def[symmetric])
  qed
qed


lemma ring_distance_decreases:
  assumes "i < N" "h < N" "i \<noteq> h"
  shows "(h + N - next_block_index N i) mod N < (h + N - i) mod N"
proof -
  have a: "h + N - i < 2 * N" "h + N - next_block_index N i < 2 * N"
    using assms by (auto simp: next_block_index_def Let_def)
  show ?thesis
    unfolding mod_small_shift[OF a(1)] mod_small_shift[OF a(2)]
    using assms by (auto simp: next_block_index_def Let_def)
qed

lemma next_block_index_less: "i < N \<Longrightarrow> next_block_index N i < N"
  by (auto simp: next_block_index_def Let_def)

lemma forward_pass_loop_returns:
  assumes "h < N" "i < N"
  shows "\<exists>c1 c2 buf'. forward_pass_loop N h i b0 b1 b2 buf = Some (c1, c2, buf')
            \<and> map unplanned buf' = map unplanned buf"
  using assms(2)
proof (induction "(h + N - i) mod N" arbitrary: i b0 b1 b2 buf rule: less_induct)
  case less
  show ?case
  proof (cases "i = h")
    case True
    then show ?thesis by (subst forward_pass_loop.simps) simp
  next
    case False
    from less.hyps[OF ring_distance_decreases[OF less.prems assms(1) False]
        next_block_index_less[OF less.prems],
        of b1 b2 "Some i" "planner_forward_pass_kernel b1 b2 (Some i) buf"]
    show ?thesis using False
      by (subst forward_pass_loop.simps) (simp add: unplanned_forward_kernel)
  qed
qed

lemma recalculate_trapezoids_loop_returns:
  assumes "h < N" "i < N"
  shows "\<exists>c buf'. recalculate_trapezoids_loop N h i nxt buf = Some (c, buf')
            \<and> map unplanned buf' = map unplanned buf"
  using assms(2)
proof (induction "(h + N - i) mod N" arbitrary: i nxt buf rule: less_induct)
  case less
  show ?case
  proof (cases "i = h")
    case True
    then show ?thesis by (subst recalculate_trapezoids_loop.simps) simp
  next
    case False
    from less.hyps[OF ring_distance_decreases[OF less.prems assms(1) False]
        next_block_index_less[OF less.prems],
        of "Some i" "case nxt of None \<Rightarrow> buf | Some c \<Rightarrow> recalculate_current c i buf"]
    show ?thesis using False
      by (subst recalculate_trapezoids_loop.simps)
         (auto simp: unplanned_recalculate_current split: option.splits)
  qed
qed

lemma activity_loop_returns:
  assumes "N = 2 ^ k" "h < N" "i < N"
  shows "\<exists>r. activity_loop N h i buf a = Some r"
  using assms(3)
proof (induction "(h + N - i) mod N" arbitrary: i a rule: less_induct)
  case less
  have "(i + 1) AND (N - 1) = (i + 1) mod N"
    unfolding assms(1) by (rule nat_and_mask)
  then have step: "Suc i AND N - Suc 0 = next_block_index N i"
    by (simp add: next_block_index_mod[OF less.prems])
  show ?case
  proof (cases "i = h")
    case True
    then show ?thesis by (subst activity_loop.simps) simp
  next
    case False
    from less.hyps[OF ring_distance_decreases[OF less.prems assms(2) False]
        next_block_index_less[OF less.prems]]
    show ?thesis using False by (subst activity_loop.simps) (simp add: step)
  qed
qed

lemma planner_forward_pass_returns:
  assumes "block_buffer_head st < BLOCK_BUFFER_SIZE cfg"
    and "block_buffer_tail st < BLOCK_BUFFER_SIZE cfg"
  shows "\<exists>buf. planner_forward_pass cfg st = Some (st\<lparr>block_buffer := buf\<rparr>)
           \<and> map unplanned buf = map unplanned (block_buffer st)"
proof -
  from forward_pass_loop_returns[OF assms] obtain c1 c2 buf' where
    "forward_pass_loop (BLOCK_BUFFER_SIZE cfg) (block_buffer_head st) (block_buffer_tail st)
       None None None (block_buffer st) = Some (c1, c2, buf')"
    "map unplanned buf' = map unplanned (block_buffer st)" by blast
  then show ?thesis
    by (auto simp: planner_forward_pass_def unplanned_forward_kernel)
qed

lemma planner_recalculate_trapezoids_returns:
  assumes "block_buffer_head st < BLOCK_BUFFER_SIZE cfg"
    and "block_buffer_tail st < BLOCK_BUFFER_SIZE cfg"
  shows "\<exists>buf. planner_recalculate_trapezoids cfg st = Some (st\<lparr>block_buffer := buf\<rparr>)
           \<and> map unplanned buf = map unplanned (block_buffer st)"
proof -
  from recalculate_trapezoids_loop_returns[OF assms] obtain c buf' where
    "recalculate_trapezoids_loop (BLOCK_BUFFER_SIZE cfg) (block_buffer_head st)
       (block_buffer_tail st) None (block_buffer st) = Some (c, buf')"
    "map unplanned buf' = map unplanned (block_buffer st)" by blast
  then show ?thesis
    by (auto simp: planner_recalculate_trapezoids_def unplanned_recalculate_newest)
qed


lemma planner_reverse_pass_returns:
  assumes "BLOCK_BUFFER_SIZE cfg = 2 ^ k"
    and "block_buffer_head st < BLOCK_BUFFER_SIZE cfg"
    and "block_buffer_tail st < BLOCK_BUFFER_SIZE cfg"
  shows "\<exists>buf. planner_reverse_pass cfg st = Some (st\<lparr>block_buffer := buf\<rparr>)
           \<and> map unplanned buf = map unplanned (block_buffer st)"
  using planner_reverse_pass_calls_result[OF assms] by (auto simp: planner_reverse_pass_def)

lemma planner_recalculate_returns:
  assumes "BLOCK_BUFFER_SIZE cfg = 2 ^ k"
    and "block_buffer_head st < BLOCK_BUFFER_SIZE cfg"
    and "block_buffer_tail st < BLOCK_BUFFER_SIZE cfg"
  shows "\<exists>buf. planner_recalculate cfg st = Some (st\<lparr>block_buffer := buf\<rparr>)
           \<and> map unplanned buf = map unplanned (block_buffer st)"
proof -
  from planner_reverse_pass_returns[OF assms] obtain b1 where
    1: "planner_reverse_pass cfg st = Some (st\<lparr>block_buffer := b1\<rparr>)"
    and u1: "map unplanned b1 = map unplanned (block_buffer st)" by blast
  have "block_buffer_head (st\<lparr>block_buffer := b1\<rparr>) < BLOCK_BUFFER_SIZE cfg"
       "block_buffer_tail (st\<lparr>block_buffer := b1\<rparr>) < BLOCK_BUFFER_SIZE cfg"
    using assms by simp_all
  from planner_forward_pass_returns[OF this] obtain b2 where
    2: "planner_forward_pass cfg (st\<lparr>block_buffer := b1\<rparr>) = Some (st\<lparr>block_buffer := b2\<rparr>)"
    and u2: "map unplanned b2 = map unplanned b1"
    by auto
  have "block_buffer_head (st\<lparr>block_buffer := b2\<rparr>) < BLOCK_BUFFER_SIZE cfg"
       "block_buffer_tail (st\<lparr>block_buffer := b2\<rparr>) < BLOCK_BUFFER_SIZE cfg"
    using assms by simp_all
  from planner_recalculate_trapezoids_returns[OF this] obtain b3 where
    3: "planner_recalculate_trapezoids cfg (st\<lparr>block_buffer := b2\<rparr>)
          = Some (st\<lparr>block_buffer := b3\<rparr>)"
    and u3: "map unplanned b3 = map unplanned b2"
    by auto
  show ?thesis
    using u1 u2 u3 by (auto simp: planner_recalculate_def 1 2 3)
qed

lemma rescale_position_frame:
  "block_buffer (rescale_position cfg ex st) = block_buffer st"
  "block_buffer_head (rescale_position cfg ex st) = block_buffer_head st"
  "block_buffer_tail (rescale_position cfg ex st) = block_buffer_tail st"
  "previous_speed (rescale_position cfg ex st) = previous_speed st"
  "previous_nominal_speed (rescale_position cfg ex st) = previous_nominal_speed st"
  "last_extruder (rescale_position cfg ex st) = last_extruder st"
  "i \<noteq> 3 \<Longrightarrow> position (rescale_position cfg ex st) ! i = position st ! i"
  by (simp_all add: rescale_position_def Let_def)

lemma plan_buffer_line_dropped:
  assumes "block_buffer_tail st \<noteq> next_block_index (BLOCK_BUFFER_SIZE cfg) (block_buffer_head st)"
    and "move_step_event_count cfg x y z e ex st \<le> dropsegments cfg"
  shows "plan_buffer_line cfg ind x y z e f ex st
           = Some ((rescale_position cfg ex st)
                \<lparr>block_buffer := (block_buffer st)
                   [block_buffer_head st :=
                      count_steps cfg (quantize_target cfg x y z e ex)
                        (position (rescale_position cfg ex st))
                        (block_buffer st ! block_buffer_head st)]\<rparr>)"
  using assms
  by (simp add: plan_buffer_line_def move_step_event_count_def Let_def rescale_position_frame)

lemma plan_buffer_line_published:
  assumes "BLOCK_BUFFER_SIZE cfg = 2 ^ k"
    and "block_buffer_head st < BLOCK_BUFFER_SIZE cfg"
    and "block_buffer_tail st < BLOCK_BUFFER_SIZE cfg"
    and "block_buffer_tail st \<noteq> next_block_index (BLOCK_BUFFER_SIZE cfg) (block_buffer_head st)"
    and "dropsegments cfg < move_step_event_count cfg x y z e ex st"
  shows "\<exists>buf. plan_buffer_line cfg ind x y z e f ex st
           = Some (st\<lparr>block_buffer := buf,
                     previous_speed := p_current_speed (prepared_move cfg ind x y z e f ex st),
                     previous_nominal_speed :=
                       nominal_speed (p_block (prepared_move cfg ind x y z e f ex st)),
                     block_buffer_head :=
                       next_block_index (BLOCK_BUFFER_SIZE cfg) (block_buffer_head st),
                     position := quantize_target cfg x y z e ex\<rparr>)
           \<and> map unplanned buf =
               map unplanned ((block_buffer st)
                 [block_buffer_head st := p_block (prepared_move cfg ind x y z e f ex st)])"
proof -
  define st1 where "st1 = rescale_position cfg ex st"
  define blk1 where "blk1 = count_steps cfg (quantize_target cfg x y z e ex) (position st1)
                       (block_buffer st1 ! block_buffer_head st1)"
  define p where "p = prepare_block cfg st1 ind (quantize_target cfg x y z e ex) f ex blk1"
  define blk where "blk = calculate_trapezoid_for_block (p_block p)
                            (entry_speed (p_block p) / nominal_speed (p_block p))
                            (p_safe_speed p / nominal_speed (p_block p))"
  define st2 where "st2 = st1\<lparr>block_buffer := (block_buffer st1)[block_buffer_head st1 := blk],
                         previous_speed := p_current_speed p,
                         previous_nominal_speed := nominal_speed blk,
                         block_buffer_head :=
                           next_block_index (BLOCK_BUFFER_SIZE cfg) (block_buffer_head st),
                         position := quantize_target cfg x y z e ex\<rparr>"
  have pm: "prepared_move cfg ind x y z e f ex st = p"
    by (simp add: prepared_move_def Let_def p_def blk1_def st1_def)
  have ub: "unplanned blk = unplanned (p_block p)"
    by (simp add: blk_def unplanned_calculate_trapezoid)
  then have "nominal_speed (unplanned blk) = nominal_speed (unplanned (p_block p))"
    by simp
  then have nb: "nominal_speed blk = nominal_speed (p_block p)"
    by (simp add: unplanned_def)
  have acc: "\<not> step_event_count blk1 \<le> dropsegments cfg"
    using assms(5) by (simp add: move_step_event_count_def blk1_def st1_def Let_def)
  have run: "plan_buffer_line cfg ind x y z e f ex st = planner_recalculate cfg st2"
    using assms(4) acc
    by (simp add: plan_buffer_line_def Let_def st2_def blk_def p_def blk1_def st1_def
        rescale_position_frame)
  have "block_buffer_head st2 < BLOCK_BUFFER_SIZE cfg" "block_buffer_tail st2 < BLOCK_BUFFER_SIZE cfg"
    using assms(2,3) by (simp_all add: st2_def st1_def rescale_position_frame next_block_index_less)
  from planner_recalculate_returns[OF assms(1) this] obtain buf where
    r: "planner_recalculate cfg st2 = Some (st2\<lparr>block_buffer := buf\<rparr>)"
    and u: "map unplanned buf = map unplanned (block_buffer st2)" by blast
  have "st2\<lparr>block_buffer := buf\<rparr> =
      st\<lparr>block_buffer := buf, previous_speed := p_current_speed p,
         previous_nominal_speed := nominal_speed (p_block p),
         block_buffer_head := next_block_index (BLOCK_BUFFER_SIZE cfg) (block_buffer_head st),
         position := quantize_target cfg x y z e ex\<rparr>"
    by (simp add: st2_def st1_def rescale_position_def Let_def nb)
  moreover have "map unplanned (block_buffer st2) =
      map unplanned ((block_buffer st)[block_buffer_head st := p_block p])"
    by (simp add: st2_def st1_def rescale_position_frame map_update ub)
  ultimately show ?thesis using run r u unfolding pm by auto
qed

lemma plan_buffer_line_accepted:
  assumes "BLOCK_BUFFER_SIZE cfg = 2 ^ k"
    and "block_buffer_head st < BLOCK_BUFFER_SIZE cfg"
    and "block_buffer_tail st < BLOCK_BUFFER_SIZE cfg"
    and "block_buffer_tail st \<noteq> next_block_index (BLOCK_BUFFER_SIZE cfg) (block_buffer_head st)"
    and "dropsegments cfg < move_step_event_count cfg x y z e ex st"
  shows "\<exists>buf v n. plan_buffer_line cfg ind x y z e f ex st
           = Some (st\<lparr>block_buffer := buf, previous_speed := v, previous_nominal_speed := n,
                     block_buffer_head :=
                       next_block_index (BLOCK_BUFFER_SIZE cfg) (block_buffer_head st),
                     position := quantize_target cfg x y z e ex\<rparr>)"
  using plan_buffer_line_published[OF assms] by blast

text \<open>The block that an accepted move publishes, up to the fields of the look-ahead.\<close>

lemma published_block:
  assumes "map unplanned buf = map unplanned (bs[h := blk])" and "h < length bs"
  shows "unplanned (buf ! h) = unplanned blk"
proof -
  have "length buf = length bs"
    using assms(1) by (metis length_list_update length_map)
  then have "unplanned (buf ! h) = map unplanned buf ! h"
    using assms(2) by simp
  also have "\<dots> = unplanned blk"
    using assms(2) by (simp add: assms(1))
  finally show ?thesis .
qed

text \<open>
  C3, as stated, fails: in a queue of three blocks the block between the tail block
  and the newest block is not examined; the reverse pass calls its kernel not at all
  and returns the buffer as it is.
\<close>

theorem reverse_pass_counterexample:
  "movesplanned example_config (example_queue 3) = 3
   \<and> planner_reverse_pass_calls example_config (example_queue 3)
       = Some (block_buffer (example_queue 3), [])"
  by (simp add: planner_reverse_pass_calls_def movesplanned_def example_config_def
      example_queue_def Let_def)

text \<open>
  C3, amended. For a buffer whose size is a power of two and a queue of depth \<open>d\<close>, the
  reverse pass returns, and the blocks it examines as \<open>current\<close> are exactly the blocks
  at the offsets \<open>d - 5\<close>, ..., 2, 1 from the tail, in this order: the tail block and
  the four newest blocks are left out, and a queue of depth 5 or less is left as it is.
\<close>

theorem reverse_pass_examined:
  assumes "BLOCK_BUFFER_SIZE cfg = 2 ^ k"
    and "block_buffer_head st < BLOCK_BUFFER_SIZE cfg"
    and "block_buffer_tail st < BLOCK_BUFFER_SIZE cfg"
  shows "\<exists>buf calls. planner_reverse_pass_calls cfg st = Some (buf, calls)
           \<and> examined calls =
               map (\<lambda>j. (block_buffer_tail st + j) mod BLOCK_BUFFER_SIZE cfg)
                 (rev [1..<movesplanned cfg st - 4])"
proof -
  have "movesplanned cfg st = num_blocks_queued cfg st"
    using movesplanned_mod[of cfg k st] assms by (simp add: movesplanned_def)
  then show ?thesis
    using planner_reverse_pass_calls_result[OF assms] by auto
qed

theorem reverse_pass_examined_witness:
  "map_option (\<lambda>r. examined (snd r))
     (planner_reverse_pass_calls example_config (example_queue 7)) = Some [2, 1]"
proof -
  have h: "BLOCK_BUFFER_SIZE example_config = 2 ^ 4"
    "block_buffer_head (example_queue 7) < BLOCK_BUFFER_SIZE example_config"
    "block_buffer_tail (example_queue 7) < BLOCK_BUFFER_SIZE example_config"
    by (simp_all add: example_config_def example_queue_def)
  have d: "movesplanned example_config (example_queue 7) - 4 = 3"
    "block_buffer_tail (example_queue 7) = 0" "BLOCK_BUFFER_SIZE example_config = 16"
    by (simp_all add: movesplanned_def example_config_def example_queue_def)
  have u: "rev [1..<3] = [2, 1::nat]"
    by (simp add: upt_rec)
  from reverse_pass_examined [OF h] show ?thesis
    unfolding d u by auto
qed

subsection \<open>Dropped and accepted moves\<close>

text \<open>
  C7, as stated, fails: a dropped move changes the position register when the extruder
  differs from the last one. With position E at 1000 steps for extruder 0, a move to
  the same E = 10 mm for extruder 1 is dropped, and position E is 1400 afterwards.
\<close>

theorem dropped_move_counterexample:
  "move_step_event_count example_config 0 0 0 10 1 swap_state \<le> dropsegments example_config
   \<and> position swap_state = [0, 0, 0, 1000]
   \<and> map_option position (plan_buffer_line example_config 0 0 0 0 10 50 1 swap_state)
       = Some [0, 0, 0, 1400]
   \<and> map_option block_buffer_head (plan_buffer_line example_config 0 0 0 0 10 50 1 swap_state)
       = Some (block_buffer_head swap_state)"
proof -
  have full: "block_buffer_tail swap_state \<noteq>
      next_block_index (BLOCK_BUFFER_SIZE example_config) (block_buffer_head swap_state)"
    by (simp add: swap_state_def plan_set_position_def empty_queue_def example_config_def
        next_block_index_def)
  have pos: "position swap_state = [0, 0, 0, 1000]"
    by (simp add: swap_state_def plan_set_position_def empty_queue_def example_config_def
        lround_def)
  have res: "position (rescale_position example_config 1 swap_state) = [0, 0, 0, 1400]"
    unfolding rescale_position_def pos
    by (simp add: swap_state_def plan_set_position_def example_config_def lround_def
        numeral_3_eq_3)
  have cnt: "move_step_event_count example_config 0 0 0 10 1 swap_state = 0"
    unfolding move_step_event_count_def Let_def res
    by (simp add: quantize_target_def count_steps_def labs_def lround_def example_config_def
        signed_divide_int_def)
  have drop: "move_step_event_count example_config 0 0 0 10 1 swap_state
                \<le> dropsegments example_config"
    unfolding cnt by (simp add: example_config_def)
  show ?thesis
    unfolding plan_buffer_line_dropped[OF full drop] pos
    using drop res by (simp add: rescale_position_frame)
qed

text \<open>
  C7, amended. On a buffer that is not full, \<open>plan_buffer_line\<close> drops a move exactly
  when its step event count is at most \<open>dropsegments\<close>. A dropped move returns with head,
  tail and junction memory unchanged and with the position of the X, Y and Z axes
  unchanged; the position of the E axis is the rescaled one, which is the old one
  when the extruder is the last one. A move with a larger step event count, such as
  \<open>dropsegments + 1\<close>, is accepted: the call returns and the head has advanced.
\<close>

theorem drop_segments_rule:
  assumes "BLOCK_BUFFER_SIZE cfg = 2 ^ k" and "1 < BLOCK_BUFFER_SIZE cfg"
    and "block_buffer_head st < BLOCK_BUFFER_SIZE cfg"
    and "block_buffer_tail st < BLOCK_BUFFER_SIZE cfg"
    and "block_buffer_tail st \<noteq> next_block_index (BLOCK_BUFFER_SIZE cfg) (block_buffer_head st)"
  shows "(move_step_event_count cfg x y z e extruder st \<le> dropsegments cfg \<longrightarrow>
           (\<exists>st'. plan_buffer_line cfg ind x y z e feed_rate extruder st = Some st'
              \<and> block_buffer_head st' = block_buffer_head st
              \<and> block_buffer_tail st' = block_buffer_tail st
              \<and> previous_speed st' = previous_speed st
              \<and> previous_nominal_speed st' = previous_nominal_speed st
              \<and> position st' = position (rescale_position cfg extruder st)
              \<and> position st' ! X_AXIS = position st ! X_AXIS
              \<and> position st' ! Y_AXIS = position st ! Y_AXIS
              \<and> position st' ! Z_AXIS = position st ! Z_AXIS
              \<and> (last_extruder st = extruder \<longrightarrow> position st' = position st)))
       \<and> (dropsegments cfg < move_step_event_count cfg x y z e extruder st \<longrightarrow>
           (\<exists>st'. plan_buffer_line cfg ind x y z e feed_rate extruder st = Some st'
              \<and> block_buffer_head st'
                  = next_block_index (BLOCK_BUFFER_SIZE cfg) (block_buffer_head st)
              \<and> block_buffer_head st' \<noteq> block_buffer_head st))"
proof (intro conjI impI)
  assume d: "move_step_event_count cfg x y z e extruder st \<le> dropsegments cfg"
  have "last_extruder st = extruder \<longrightarrow> position (rescale_position cfg extruder st) = position st"
    by (simp add: rescale_position_def)
  then show "\<exists>st'. plan_buffer_line cfg ind x y z e feed_rate extruder st = Some st'
              \<and> block_buffer_head st' = block_buffer_head st
              \<and> block_buffer_tail st' = block_buffer_tail st
              \<and> previous_speed st' = previous_speed st
              \<and> previous_nominal_speed st' = previous_nominal_speed st
              \<and> position st' = position (rescale_position cfg extruder st)
              \<and> position st' ! X_AXIS = position st ! X_AXIS
              \<and> position st' ! Y_AXIS = position st ! Y_AXIS
              \<and> position st' ! Z_AXIS = position st ! Z_AXIS
              \<and> (last_extruder st = extruder \<longrightarrow> position st' = position st)"
    by (simp add: plan_buffer_line_dropped[OF assms(5) d] rescale_position_frame)
next
  assume a: "dropsegments cfg < move_step_event_count cfg x y z e extruder st"
  have "next_block_index (BLOCK_BUFFER_SIZE cfg) (block_buffer_head st) \<noteq> block_buffer_head st"
    using assms(2) by (auto simp: next_block_index_def Let_def)
  moreover from plan_buffer_line_accepted[OF assms(1,3,4,5) a, of ind feed_rate]
  obtain buf v n where
    "plan_buffer_line cfg ind x y z e feed_rate extruder st
       = Some (st\<lparr>block_buffer := buf, previous_speed := v, previous_nominal_speed := n,
                 block_buffer_head :=
                   next_block_index (BLOCK_BUFFER_SIZE cfg) (block_buffer_head st),
                 position := quantize_target cfg x y z e extruder\<rparr>)"
    by blast
  ultimately show "\<exists>st'. plan_buffer_line cfg ind x y z e feed_rate extruder st = Some st'
              \<and> block_buffer_head st'
                  = next_block_index (BLOCK_BUFFER_SIZE cfg) (block_buffer_head st)
              \<and> block_buffer_head st' \<noteq> block_buffer_head st"
    by simp
qed

theorem drop_segments_rule_witness:
  "(\<exists>st'. plan_buffer_line example_config 0 0 0 0 0 50 0 empty_queue = Some st'
       \<and> block_buffer_head st' = 0 \<and> position st' = [0, 0, 0, 0]
       \<and> previous_nominal_speed st' = 0)
   \<and> (\<exists>st'. plan_buffer_line example_config 0 (3/40) 0 0 0 50 0 empty_queue = Some st'
       \<and> block_buffer_head st' = 1)"
proof -
  have h: "BLOCK_BUFFER_SIZE example_config = 2 ^ 4" "1 < BLOCK_BUFFER_SIZE example_config"
    "block_buffer_head empty_queue < BLOCK_BUFFER_SIZE example_config"
    "block_buffer_tail empty_queue < BLOCK_BUFFER_SIZE example_config"
    "block_buffer_tail empty_queue \<noteq>
       next_block_index (BLOCK_BUFFER_SIZE example_config) (block_buffer_head empty_queue)"
    by (simp_all add: example_config_def empty_queue_def next_block_index_def)
  have c0: "move_step_event_count example_config 0 0 0 0 0 empty_queue = 0"
    by (simp add: move_step_event_count_def rescale_position_def quantize_target_def
        count_steps_def labs_def lround_def signed_divide_int_def example_config_def
        empty_queue_def)
  have c6: "move_step_event_count example_config (3/40) 0 0 0 0 empty_queue = 6"
    by (simp add: move_step_event_count_def rescale_position_def quantize_target_def
        count_steps_def labs_def lround_def signed_divide_int_def example_config_def
        empty_queue_def)
  have d: "dropsegments example_config = 5" by (simp add: example_config_def)
  have e: "block_buffer_head empty_queue = 0" "position empty_queue = [0, 0, 0, 0]"
    "last_extruder empty_queue = 0" "previous_nominal_speed empty_queue = 0"
    "next_block_index (BLOCK_BUFFER_SIZE example_config) 0 = 1"
    by (simp_all add: empty_queue_def example_config_def next_block_index_def)
  from drop_segments_rule [OF h, where x = 0 and y = 0 and z = 0 and e = 0 and extruder = 0
         and ind = 0 and feed_rate = 50]
       drop_segments_rule [OF h, where x = "3/40" and y = 0 and z = 0 and e = 0 and extruder = 0
         and ind = 0 and feed_rate = 50]
  show ?thesis
    unfolding c0 c6 d e by auto
qed

subsection \<open>The fan output of check_axes_activity\<close>

lemma fan_loop_writes:
  assumes "length t = EXTRUDERS cfg"
    and "\<forall>i. e \<le> i \<longrightarrow> t ! i = T ! i"
    and "t ! ACTIVE_EXTRUDER cfg = T ! ACTIVE_EXTRUDER cfg"
  shows "snd (snd (fan_loop cfg e t f w)) =
           w @ map (\<lambda>i. (fan_pin cfg ! i,
                          if follow_me_fan cfg \<and> follow_me cfg AND push_bit i 1 \<noteq> 0
                          then T ! ACTIVE_EXTRUDER cfg else T ! i))
                 (filter (\<lambda>i. fan_pin cfg ! i > - 1) [e..<EXTRUDERS cfg])"
  using assms
proof (induction cfg e t f w rule: fan_loop.induct)
  case (1 cfg e t f w)
  show ?case
  proof (cases "e < EXTRUDERS cfg")
    case False
    then show ?thesis by (subst fan_loop.simps) simp
  next
    case True
    define follows where "follows = (follow_me_fan cfg \<and> follow_me cfg AND push_bit e 1 \<noteq> 0)"
    define t1 where "t1 = (if follows then t[e := t ! ACTIVE_EXTRUDER cfg] else t)"
    define f1 where "f1 = (if follows then f[e := f ! ACTIVE_EXTRUDER cfg] else f)"
    define w1 where "w1 = (if fan_pin cfg ! e > - 1 then w @ [(fan_pin cfg ! e, t1 ! e)] else w)"
    have len: "length t1 = EXTRUDERS cfg" using "1.prems"(1) by (simp add: t1_def)
    have rest: "\<forall>i. e + 1 \<le> i \<longrightarrow> t1 ! i = T ! i"
      using "1.prems"(2) by (simp add: t1_def)
    have act: "t1 ! ACTIVE_EXTRUDER cfg = T ! ACTIVE_EXTRUDER cfg"
      using "1.prems"(1,3) True
      by (cases "ACTIVE_EXTRUDER cfg = e") (simp_all add: t1_def)
    have val: "t1 ! e = (if follows then T ! ACTIVE_EXTRUDER cfg else T ! e)"
      using "1.prems" True by (simp add: t1_def)
    have step: "fan_loop cfg e t f w = fan_loop cfg (e + 1) t1 f1 w1"
      using True
      by (subst fan_loop.simps) (simp add: Let_def follows_def t1_def f1_def w1_def)
    have IH: "snd (snd (fan_loop cfg (e + 1) t1 f1 w1)) =
           w1 @ map (\<lambda>i. (fan_pin cfg ! i,
                          if follow_me_fan cfg \<and> follow_me cfg AND push_bit i 1 \<noteq> 0
                          then T ! ACTIVE_EXTRUDER cfg else T ! i))
                 (filter (\<lambda>i. fan_pin cfg ! i > - 1) [e + 1..<EXTRUDERS cfg])"
      using "1.IH"[OF True follows_def t1_def f1_def len rest act]
      by (simp add: w1_def)
    show ?thesis
      unfolding step IH
      using True val by (simp add: upt_conv_Cons w1_def follows_def)
  qed
qed

lemma initial_tail_fan_speed_nth:
  assumes "e < length (fanSpeed cfg)"
  shows "initial_tail_fan_speed cfg st ! e =
           (if block_buffer_tail st \<noteq> block_buffer_head st \<and>
               active_extruder (block_buffer st ! block_buffer_tail st) = e
            then fan_speed (block_buffer st ! block_buffer_tail st)
            else fanSpeed cfg ! e)"
  using assms by (auto simp: initial_tail_fan_speed_def)

lemma check_axes_activity_writes:
  assumes "BLOCK_BUFFER_SIZE cfg = 2 ^ k"
    and "block_buffer_head st < BLOCK_BUFFER_SIZE cfg"
    and "block_buffer_tail st < BLOCK_BUFFER_SIZE cfg"
    and "length (fanSpeed cfg) = EXTRUDERS cfg"
  shows "\<exists>out. check_axes_activity cfg st = Some out
           \<and> analog_writes out =
               map (\<lambda>e. (fan_pin cfg ! e,
                          initial_tail_fan_speed cfg st !
                            (if follow_me_fan cfg \<and> follow_me cfg AND push_bit e 1 \<noteq> 0
                             then ACTIVE_EXTRUDER cfg else e)))
                 (filter (\<lambda>e. fan_pin cfg ! e > - 1) [0..<EXTRUDERS cfg])"
proof -
  define a0 where "a0 = \<lparr>x_active = 0, y_active = 0, z_active = 0, e_active = 0\<rparr>"
  have "\<exists>a. (if block_buffer_tail st \<noteq> block_buffer_head st
        then activity_loop (BLOCK_BUFFER_SIZE cfg) (block_buffer_head st) (block_buffer_tail st)
               (block_buffer st) a0
        else Some a0) = Some a"
    using activity_loop_returns[OF assms(1,2,3)] by auto
  then obtain a where a: "(if block_buffer_tail st \<noteq> block_buffer_head st
        then activity_loop (BLOCK_BUFFER_SIZE cfg) (block_buffer_head st) (block_buffer_tail st)
               (block_buffer st) a0
        else Some a0) = Some a" by blast
  have len: "length (initial_tail_fan_speed cfg st) = EXTRUDERS cfg"
    using assms(4) by (simp add: initial_tail_fan_speed_def)
  obtain t f w where r: "fan_loop cfg 0 (initial_tail_fan_speed cfg st) (fanSpeed cfg) [] = (t, f, w)"
    by (cases "fan_loop cfg 0 (initial_tail_fan_speed cfg st) (fanSpeed cfg) []") auto
  from fan_loop_writes[OF len, of 0 "initial_tail_fan_speed cfg st" "fanSpeed cfg" "[]"]
  have w: "w = map (\<lambda>i. (fan_pin cfg ! i,
                          if follow_me_fan cfg \<and> follow_me cfg AND push_bit i 1 \<noteq> 0
                          then initial_tail_fan_speed cfg st ! ACTIVE_EXTRUDER cfg
                          else initial_tail_fan_speed cfg st ! i))
                 (filter (\<lambda>i. fan_pin cfg ! i > - 1) [0..<EXTRUDERS cfg])"
    by (simp add: r)
  have "check_axes_activity cfg st =
          Some \<lparr>disable_x_called = (DISABLE_X cfg \<and> x_active a = 0),
                 disable_y_called = (DISABLE_Y cfg \<and> y_active a = 0),
                 disable_z_called = (DISABLE_Z cfg \<and> z_active a = 0),
                 disable_e_called = (DISABLE_E cfg \<and> e_active a = 0),
                 analog_writes = w,
                 fanSpeed_after = f\<rparr>"
    unfolding check_axes_activity_def a0_def[symmetric] a by (simp add: r)
  then show ?thesis
    unfolding w by (auto intro!: map_cong)
qed

lemma fan_queue_writes:
  "map_option analog_writes (check_axes_activity example_config fan_queue)
     = Some [(6, 100), (7, 0)]"
proof -
  have h: "BLOCK_BUFFER_SIZE example_config = 2 ^ 4"
    "block_buffer_head fan_queue < BLOCK_BUFFER_SIZE example_config"
    "block_buffer_tail fan_queue < BLOCK_BUFFER_SIZE example_config"
    "length (fanSpeed example_config) = EXTRUDERS example_config"
    by (simp_all add: example_config_def fan_queue_def)
  have t: "initial_tail_fan_speed example_config fan_queue = [100, 0]"
    by (simp add: initial_tail_fan_speed_def example_config_def fan_queue_def
        example_block_def zero_block_def)
  have c: "EXTRUDERS example_config = 2" "fan_pin example_config = [6, 7]"
    "follow_me_fan example_config = False"
    by (simp_all add: example_config_def)
  have u: "[0..<2] = [0, 1::nat]" by (simp add: upt_rec)
  from check_axes_activity_writes [OF h] show ?thesis
    unfolding t c u by auto
qed

text \<open>
  C9, as stated, fails: with two blocks of extruder 0 in the queue, the fan of extruder 0
  gets the fan speed 100 of the tail block, which is the oldest one, not the 200 of the
  newest block.
\<close>

theorem fan_output_counterexample:
  "map_option analog_writes (check_axes_activity example_config fan_queue)
     = Some [(6, 100), (7, 0)]
   \<and> block_buffer_head fan_queue = 2
   \<and> active_extruder (block_buffer fan_queue ! 1) = 0
   \<and> fan_speed (block_buffer fan_queue ! 1) = 200
   \<and> fan_pin example_config ! 0 = 6"
  by (simp add: fan_queue_writes)
     (simp add: fan_queue_def example_block_def zero_block_def example_config_def)

text \<open>
  C9, amended. \<open>check_axes_activity\<close> returns, and for every extruder with a fan pin
  it writes one value to that pin, in the order of the extruders. The value belongs to a
  source extruder: the extruder itself, or \<open>ACTIVE_EXTRUDER\<close> when the extruder's fan
  follows the active one. It is the fan speed stored in the tail block, the oldest of
  the queue, when the queue is not empty and the tail block is a block of the source
  extruder; otherwise, and always when the queue is empty, it is the configured
  \<open>fanSpeed\<close> of the source extruder. Blocks behind the tail block have no influence.
\<close>

theorem fan_output_from_tail_block:
  assumes "BLOCK_BUFFER_SIZE cfg = 2 ^ k"
    and "block_buffer_head st < BLOCK_BUFFER_SIZE cfg"
    and "block_buffer_tail st < BLOCK_BUFFER_SIZE cfg"
    and "length (fanSpeed cfg) = EXTRUDERS cfg"
    and "ACTIVE_EXTRUDER cfg < EXTRUDERS cfg"
    and "block_buffer_tail st \<noteq> block_buffer_head st \<longrightarrow>
           active_extruder (block_buffer st ! block_buffer_tail st) < EXTRUDERS cfg"
  shows "\<exists>out. check_axes_activity cfg st = Some out
           \<and> analog_writes out =
               map (\<lambda>e. (fan_pin cfg ! e,
                     let src = (if follow_me_fan cfg \<and> follow_me cfg AND push_bit e 1 \<noteq> 0
                                then ACTIVE_EXTRUDER cfg else e)
                     in if block_buffer_tail st \<noteq> block_buffer_head st \<and>
                           active_extruder (block_buffer st ! block_buffer_tail st) = src
                        then fan_speed (block_buffer st ! block_buffer_tail st)
                        else fanSpeed cfg ! src))
                 (filter (\<lambda>e. fan_pin cfg ! e > - 1) [0..<EXTRUDERS cfg])"
proof -
  from check_axes_activity_writes[OF assms(1-4)] obtain out where
    o: "check_axes_activity cfg st = Some out"
    and w: "analog_writes out =
               map (\<lambda>e. (fan_pin cfg ! e,
                          initial_tail_fan_speed cfg st !
                            (if follow_me_fan cfg \<and> follow_me cfg AND push_bit e 1 \<noteq> 0
                             then ACTIVE_EXTRUDER cfg else e)))
                 (filter (\<lambda>e. fan_pin cfg ! e > - 1) [0..<EXTRUDERS cfg])"
    by blast
  have "analog_writes out =
               map (\<lambda>e. (fan_pin cfg ! e,
                     let src = (if follow_me_fan cfg \<and> follow_me cfg AND push_bit e 1 \<noteq> 0
                                then ACTIVE_EXTRUDER cfg else e)
                     in if block_buffer_tail st \<noteq> block_buffer_head st \<and>
                           active_extruder (block_buffer st ! block_buffer_tail st) = src
                        then fan_speed (block_buffer st ! block_buffer_tail st)
                        else fanSpeed cfg ! src))
                 (filter (\<lambda>e. fan_pin cfg ! e > - 1) [0..<EXTRUDERS cfg])"
    unfolding w
  proof (rule map_cong[OF refl])
    fix e assume "e \<in> set (filter (\<lambda>e. fan_pin cfg ! e > - 1) [0..<EXTRUDERS cfg])"
    then have e: "e < length (fanSpeed cfg)" using assms(4) by simp
    have a: "ACTIVE_EXTRUDER cfg < length (fanSpeed cfg)" using assms(4,5) by simp
    show "(fan_pin cfg ! e,
           initial_tail_fan_speed cfg st !
             (if follow_me_fan cfg \<and> follow_me cfg AND push_bit e 1 \<noteq> 0
              then ACTIVE_EXTRUDER cfg else e)) =
          (fan_pin cfg ! e,
           let src = (if follow_me_fan cfg \<and> follow_me cfg AND push_bit e 1 \<noteq> 0
                      then ACTIVE_EXTRUDER cfg else e)
           in if block_buffer_tail st \<noteq> block_buffer_head st \<and>
                 active_extruder (block_buffer st ! block_buffer_tail st) = src
              then fan_speed (block_buffer st ! block_buffer_tail st)
              else fanSpeed cfg ! src)"
      by (simp add: Let_def initial_tail_fan_speed_nth[OF e] initial_tail_fan_speed_nth[OF a])
  qed
  with o show ?thesis by blast
qed

theorem fan_output_from_tail_block_witness:
  "\<exists>out. check_axes_activity example_config fan_queue = Some out
      \<and> analog_writes out = [(6, 100), (7, 0)]"
proof -
  have h: "BLOCK_BUFFER_SIZE example_config = 2 ^ 4"
    "block_buffer_head fan_queue < BLOCK_BUFFER_SIZE example_config"
    "block_buffer_tail fan_queue < BLOCK_BUFFER_SIZE example_config"
    "length (fanSpeed example_config) = EXTRUDERS example_config"
    "ACTIVE_EXTRUDER example_config < EXTRUDERS example_config"
    "block_buffer_tail fan_queue \<noteq> block_buffer_head fan_queue \<longrightarrow>
       active_extruder (block_buffer fan_queue ! block_buffer_tail fan_queue)
         < EXTRUDERS example_config"
    by (simp_all add: example_config_def fan_queue_def example_block_def zero_block_def)
  have c: "EXTRUDERS example_config = 2" "fan_pin example_config = [6, 7]"
    "follow_me_fan example_config = False" "fanSpeed example_config = [200, 0]"
    by (simp_all add: example_config_def)
  have q: "block_buffer_tail fan_queue = 0" "block_buffer_head fan_queue = 2"
    "active_extruder (block_buffer fan_queue ! 0) = 0"
    "fan_speed (block_buffer fan_queue ! 0) = 100"
    by (simp_all add: fan_queue_def example_block_def zero_block_def)
  have u: "[0..<2] = [0, 1::nat]" by (simp add: upt_rec)
  from fan_output_from_tail_block [OF h] show ?thesis
    unfolding c q u by (simp add: Let_def)
qed

subsection \<open>Single moves, evaluated\<close>

lemmas prepare_eval_defs =
  prepared_move_def prepare_block_def quantize_target_def rescale_position_def count_steps_def
  lround_def labs_def signed_divide_int_def
  set_direction_def set_direction_bit_def floor_feed_rate_def
  compute_delta_mm_def classify_move_def square_def fabs_def num_blocks_queued_def slowdown_def
  axis_speeds_def speed_limit_factor_def limit_factor_def correct_speed_def set_acceleration_def
  limit_axis_acceleration_def axis_steps_per_sqr_second_def trunc_def
  junction_def safe_floor_def jerk_limited_junction_def Let_def

lemma zero_block_sel [simp]:
  "steps_x zero_block = 0" "steps_y zero_block = 0" "steps_z zero_block = 0"
  "steps_e zero_block = 0" "step_event_count zero_block = 0"
  "direction_bits zero_block = 0" "busy zero_block = False"
  "nominal_length_flag zero_block = False" "recalculate_flag zero_block = False"
  "initial_rate zero_block = 0" "final_rate zero_block = 0"
  by (simp_all add: zero_block_def)

lemma sqrt_squares: "sqrt 100 = 10" "sqrt (1/100) = 1/10" "sqrt 2500 = 50"
  using real_sqrt_abs[of 10] real_sqrt_abs[of "1/10"] real_sqrt_abs[of 50]
  by (simp_all add: power2_eq_square)

lemma allowable_bounds:
  "10 \<le> max_allowable_speed (- 3000) (1/20) 10"
  "50 \<le> max_allowable_speed (- 3000) (1/20) 10"
  "0 \<le> max_allowable_speed (- 3000) (1/20) (1/10)"
  "25 \<le> max_allowable_speed (- 3000) (1/20) 2"
  unfolding max_allowable_speed_def
  by (rule real_le_rsqrt, simp add: power2_eq_square)+


lemma unplanned_eq_fields:
  assumes "unplanned a = unplanned b"
  shows "nominal_length_flag a = nominal_length_flag b" "nominal_speed a = nominal_speed b"
    "acceleration a = acceleration b" "millimeters a = millimeters b"
    "steps_e a = steps_e b" "retract a = retract b" "max_entry_speed a = max_entry_speed b"
proof -
  have f: "\<And>f. f (unplanned a) = f (unplanned b)" using assms by simp
  show "nominal_length_flag a = nominal_length_flag b" using f[of nominal_length_flag]
    by (simp add: unplanned_def)
  show "nominal_speed a = nominal_speed b" using f[of nominal_speed]
    by (simp add: unplanned_def)
  show "acceleration a = acceleration b" using f[of acceleration]
    by (simp add: unplanned_def)
  show "millimeters a = millimeters b" using f[of millimeters]
    by (simp add: unplanned_def)
  show "steps_e a = steps_e b" using f[of steps_e]
    by (simp add: unplanned_def)
  show "retract a = retract b" using f[of retract]
    by (simp add: unplanned_def)
  show "max_entry_speed a = max_entry_speed b" using f[of max_entry_speed]
    by (simp add: unplanned_def)
qed

lemma example_ring:
  "BLOCK_BUFFER_SIZE example_config = 2 ^ 4"
  "block_buffer_head empty_queue < BLOCK_BUFFER_SIZE example_config"
  "block_buffer_tail empty_queue < BLOCK_BUFFER_SIZE example_config"
  "block_buffer_tail empty_queue \<noteq>
     next_block_index (BLOCK_BUFFER_SIZE example_config) (block_buffer_head empty_queue)"
  by (simp_all add: example_config_def empty_queue_def next_block_index_def)

lemma prepared_line:
  "prepared_move example_config ind 10 0 0 0 50 0 empty_queue =
     \<lparr>p_block =
        zero_block
        \<lparr>busy := False, steps_x := 800, steps_y := 0, steps_z := 0,
           steps_e := 0, step_event_count := 800, fan_speed := 200,
           direction_bits := 0, active_extruder := 0, travel := True,
           retract := False, restore := False, millimeters := 10,
           nominal_speed := 50, nominal_rate := 4000,
           acceleration_st := 240000, acceleration := 3000,
           acceleration_rate := 2013265, max_entry_speed := 10,
           entry_speed := 10, nominal_length_flag := True,
           recalculate_flag := True\<rparr>,
        p_no_move = False, p_current_speed = [50, 0, 0, 0],
        p_safe_speed = ind\<rparr>"
  by (simp add: prepare_eval_defs example_config_def empty_queue_def sqrt_squares
      allowable_bounds cong: let_weak_cong prod.case_cong_weak)

text \<open>
  C2. The claim is that the initial trapezoid of a moving block is resolved with the
  safe floor as exit speed. In the code the \<^verbatim>\<open>safe_speed\<close> that is passed on is the one
  declared before the \<^verbatim>\<open>if\<close>, which only the branch of a pure E move assigns; the
  branch of a moving block assigns the safe floor to a second variable of the same name.
  For the first move of scenario 1 (10 mm along X at 50 mm/s from rest) the block is a
  moving block, its nominal speed is 50 and the safe floor is 10, but the exit speed
  passed on is the indeterminate value \<open>ind\<close>, whatever it is. With the value 0 the
  initial trapezoid gets the final rate 120; the safe floor would give 800.
\<close>

theorem exit_speed_indeterminate:
  "p_no_move (prepared_move example_config ind 10 0 0 0 50 0 empty_queue) = False
   \<and> p_safe_speed (prepared_move example_config ind 10 0 0 0 50 0 empty_queue) = ind
   \<and> nominal_speed (p_block (prepared_move example_config ind 10 0 0 0 50 0 empty_queue)) = 50
   \<and> safe_floor example_config
        (p_current_speed (prepared_move example_config ind 10 0 0 0 50 0 empty_queue)) 0
        (p_block (prepared_move example_config ind 10 0 0 0 50 0 empty_queue)) = 10
   \<and> final_rate (calculate_trapezoid_for_block
        (p_block (prepared_move example_config 0 10 0 0 0 50 0 empty_queue))
        (entry_speed (p_block (prepared_move example_config 0 10 0 0 0 50 0 empty_queue))
           / nominal_speed (p_block (prepared_move example_config 0 10 0 0 0 50 0 empty_queue)))
        (p_safe_speed (prepared_move example_config 0 10 0 0 0 50 0 empty_queue)
           / nominal_speed (p_block (prepared_move example_config 0 10 0 0 0 50 0 empty_queue))))
       = 120
   \<and> final_rate (calculate_trapezoid_for_block
        (p_block (prepared_move example_config 0 10 0 0 0 50 0 empty_queue))
        (entry_speed (p_block (prepared_move example_config 0 10 0 0 0 50 0 empty_queue))
           / nominal_speed (p_block (prepared_move example_config 0 10 0 0 0 50 0 empty_queue)))
        (10 / 50)) = 800"
  unfolding prepared_line
  by (simp add: safe_floor_def example_config_def fabs_def trapezoid_eval_defs Let_def)

subsection \<open>Pure E moves\<close>

lemma prepared_retract:
  "prepared_move example_config ind 0 0 0 (- 2) 25 0 empty_queue =
     \<lparr>p_block =
        zero_block
        \<lparr>busy := False, steps_x := 0, steps_y := 0, steps_z := 0,
           steps_e := 200, step_event_count := 200, fan_speed := 200,
           direction_bits := 8, active_extruder := 0, travel := False,
           restore := False, millimeters := 2, retract := True,
           nominal_speed := 25, nominal_rate := 2500,
           acceleration_st := 300000, acceleration := 3000,
           acceleration_rate := 2516582, max_entry_speed := 5,
           entry_speed := 5\<rparr>,
        p_no_move = True, p_current_speed = [0, 0, 0, - 25],
        p_safe_speed = 5\<rparr>"
  by (simp add: prepare_eval_defs example_config_def empty_queue_def
      cong: let_weak_cong prod.case_cong_weak)

text \<open>
  C8. The claim includes pure E moves. The junction part sets \<open>nominal_length_flag\<close>
  only in the branch of a moving block; for a pure E move the flag keeps the value that
  the slot held before. The first move on a fresh planner, a retraction of 2 mm at
  25 mm/s, is accepted; its block has nominal speed 25, acceleration 3000 and length
  2, so the nominal speed is below the allowable speed, but the flag of the published
  block is false, as it was in the zero-initialised slot.
\<close>

theorem retract_keeps_stale_flag:
  "nominal_length_flag (snd (junction cfg st ind True moves_queued current_speed extruder blk))
     = nominal_length_flag blk
   \<and> nominal_length_flag
        (snd (junction cfg st ind False moves_queued current_speed extruder blk))
     = (nominal_speed blk \<le>
          max_allowable_speed (- acceleration blk) (MINIMUM_PLANNER_SPEED cfg) (millimeters blk))
   \<and> (\<exists>st'. plan_buffer_line example_config ind 0 0 0 (- 2) 25 0 empty_queue = Some st'
      \<and> block_buffer_head st' = 1
      \<and> nominal_length_flag (block_buffer st' ! 0) = False
      \<and> nominal_speed (block_buffer st' ! 0) = 25
      \<and> acceleration (block_buffer st' ! 0) = 3000
      \<and> millimeters (block_buffer st' ! 0) = 2
      \<and> 25 \<le> sqrt (2 * 3000 * 2 + (MINIMUM_PLANNER_SPEED example_config)\<^sup>2))"
proof -
  have j: "nominal_length_flag
             (snd (junction cfg st ind True moves_queued current_speed extruder blk))
           = nominal_length_flag blk"
    "nominal_length_flag
        (snd (junction cfg st ind False moves_queued current_speed extruder blk))
     = (nominal_speed blk \<le>
          max_allowable_speed (- acceleration blk) (MINIMUM_PLANNER_SPEED cfg) (millimeters blk))"
    by (simp_all add: junction_def Let_def)
  have c: "dropsegments example_config
             < move_step_event_count example_config 0 0 0 (- 2) 0 empty_queue"
    by (simp add: move_step_event_count_def rescale_position_def quantize_target_def
        count_steps_def labs_def lround_def signed_divide_int_def example_config_def
        empty_queue_def)
  from plan_buffer_line_published[OF example_ring c, of ind 25]
  obtain buf where
    r: "plan_buffer_line example_config ind 0 0 0 (- 2) 25 0 empty_queue
          = Some (empty_queue\<lparr>block_buffer := buf,
               previous_speed :=
                 p_current_speed (prepared_move example_config ind 0 0 0 (- 2) 25 0 empty_queue),
               previous_nominal_speed :=
                 nominal_speed (p_block (prepared_move example_config ind 0 0 0 (- 2) 25 0 empty_queue)),
               block_buffer_head :=
                 next_block_index (BLOCK_BUFFER_SIZE example_config) (block_buffer_head empty_queue),
               position := quantize_target example_config 0 0 0 (- 2) 0\<rparr>)"
    and u: "map unplanned buf = map unplanned ((block_buffer empty_queue)
              [block_buffer_head empty_queue :=
                 p_block (prepared_move example_config ind 0 0 0 (- 2) 25 0 empty_queue)])"
    by blast
  have h: "block_buffer_head empty_queue = 0" "block_buffer_head empty_queue < length (block_buffer empty_queue)"
    "next_block_index (BLOCK_BUFFER_SIZE example_config) 0 = 1"
    by (simp_all add: empty_queue_def example_config_def next_block_index_def)
  note e = unplanned_eq_fields[OF published_block[OF u h(2)], unfolded h(1) prepared_retract]
  have s: "25 \<le> sqrt (2 * 3000 * 2 + (MINIMUM_PLANNER_SPEED example_config)\<^sup>2)"
    by (rule real_le_rsqrt) (simp add: example_config_def power2_eq_square)
  have "\<exists>st'. plan_buffer_line example_config ind 0 0 0 (- 2) 25 0 empty_queue = Some st'
      \<and> block_buffer_head st' = 1
      \<and> nominal_length_flag (block_buffer st' ! 0) = False
      \<and> nominal_speed (block_buffer st' ! 0) = 25
      \<and> acceleration (block_buffer st' ! 0) = 3000
      \<and> millimeters (block_buffer st' ! 0) = 2
      \<and> 25 \<le> sqrt (2 * 3000 * 2 + (MINIMUM_PLANNER_SPEED example_config)\<^sup>2)"
    unfolding r using e s by (simp add: h)
  with j show ?thesis by blast
qed


subsection \<open>The slowdown of short segments\<close>

lemma prepared_hasty:
  "prepared_move hasty_config ind (301/10) 0 0 (1/10) 1000000 0 draining_queue =
     \<lparr>p_block =
        example_block
        \<lparr>busy := False, steps_x := 8, steps_y := 0, steps_z := 0,
           steps_e := 10, step_event_count := 10, fan_speed := 200,
           direction_bits := 0, active_extruder := 0, travel := False,
           retract := False, restore := False, millimeters := 1 / 10,
           nominal_speed := 0, nominal_rate := 0, acceleration_st := 300000,
           acceleration := 3000, acceleration_rate := 2516582,
           max_entry_speed := 0, entry_speed := 0,
           nominal_length_flag := True, recalculate_flag := True\<rparr>,
        p_no_move = False, p_current_speed = [0, 0, 0, 0],
        p_safe_speed = ind\<rparr>"
  by (simp add: prepare_eval_defs hasty_config_def example_config_def draining_queue_def
      sqrt_squares allowable_bounds cong: let_weak_cong prod.case_cong_weak)

lemma hasty_ring:
  "BLOCK_BUFFER_SIZE hasty_config = 2 ^ 4"
  "block_buffer_head draining_queue < BLOCK_BUFFER_SIZE hasty_config"
  "block_buffer_tail draining_queue < BLOCK_BUFFER_SIZE hasty_config"
  "block_buffer_tail draining_queue \<noteq>
     next_block_index (BLOCK_BUFFER_SIZE hasty_config) (block_buffer_head draining_queue)"
  by (simp_all add: hasty_config_def example_config_def draining_queue_def next_block_index_def)

text \<open>
  C10. The claim is that a published block has a positive nominal speed. The slowdown
  divides by the stretched segment time without a test. With a minimal segment time of
  1 microsecond, three blocks queued and a printing move of 0.1 mm at 1000000 mm/s, the
  segment time rounds to 0, the stretch \<open>2 * (1 - 0) div 3\<close> is 0, and
  \<^verbatim>\<open>inverse_second\<close> is 1000000 divided by zero. In the model this quotient is 0
  and the published block has nominal speed 0; on the hardware it is an infinity, and
  the nominal speed becomes a NaN when it is multiplied by the speed factor 0. In both
  readings the nominal speed is not a positive number.
\<close>

theorem slowdown_divides_by_zero:
  "lround (1000000 / (1000000 * (1 / (1/10)))) = 0
   \<and> 2 * (minsegmenttime hasty_config - 0) div int (num_blocks_queued hasty_config draining_queue)
       = 0
   \<and> slowdown hasty_config [1/10, 0, 0, 1/10] (num_blocks_queued hasty_config draining_queue)
        (1000000 * (1 / (1/10))) = 1000000 / real_of_int (0 + lround (real_of_int 0))
   \<and> (\<exists>st'. plan_buffer_line hasty_config ind (301/10) 0 0 (1/10) 1000000 0 draining_queue
               = Some st'
          \<and> block_buffer_head st' = 4
          \<and> \<not> 0 < nominal_speed (block_buffer st' ! 3))"
proof -
  have c: "dropsegments hasty_config
             < move_step_event_count hasty_config (301/10) 0 0 (1/10) 0 draining_queue"
    by (simp add: move_step_event_count_def rescale_position_def quantize_target_def
        count_steps_def labs_def lround_def signed_divide_int_def hasty_config_def
        example_config_def draining_queue_def)
  from plan_buffer_line_published[OF hasty_ring c, of ind 1000000]
  obtain buf where
    r: "plan_buffer_line hasty_config ind (301/10) 0 0 (1/10) 1000000 0 draining_queue
          = Some (draining_queue\<lparr>block_buffer := buf,
               previous_speed := p_current_speed
                 (prepared_move hasty_config ind (301/10) 0 0 (1/10) 1000000 0 draining_queue),
               previous_nominal_speed := nominal_speed (p_block
                 (prepared_move hasty_config ind (301/10) 0 0 (1/10) 1000000 0 draining_queue)),
               block_buffer_head :=
                 next_block_index (BLOCK_BUFFER_SIZE hasty_config)
                   (block_buffer_head draining_queue),
               position := quantize_target hasty_config (301/10) 0 0 (1/10) 0\<rparr>)"
    and u: "map unplanned buf = map unplanned ((block_buffer draining_queue)
              [block_buffer_head draining_queue := p_block
                 (prepared_move hasty_config ind (301/10) 0 0 (1/10) 1000000 0 draining_queue)])"
    by blast
  have h: "block_buffer_head draining_queue = 3"
    "block_buffer_head draining_queue < length (block_buffer draining_queue)"
    "next_block_index (BLOCK_BUFFER_SIZE hasty_config) 3 = 4"
    by (simp_all add: draining_queue_def hasty_config_def example_config_def next_block_index_def)
  note e = unplanned_eq_fields(2)[OF published_block[OF u h(2)], unfolded h(1) prepared_hasty]
  have s: "lround (1000000 / (1000000 * (1 / (1/10)))) = 0"
    "2 * (minsegmenttime hasty_config - 0) div int (num_blocks_queued hasty_config draining_queue)
       = 0"
    "slowdown hasty_config [1/10, 0, 0, 1/10] (num_blocks_queued hasty_config draining_queue)
        (1000000 * (1 / (1/10))) = 1000000 / real_of_int (0 + lround (real_of_int 0))"
    by (simp_all add: lround_def slowdown_def num_blocks_queued_def hasty_config_def
        example_config_def draining_queue_def)
  have "\<exists>st'. plan_buffer_line hasty_config ind (301/10) 0 0 (1/10) 1000000 0 draining_queue
               = Some st'
          \<and> block_buffer_head st' = 4
          \<and> \<not> 0 < nominal_speed (block_buffer st' ! 3)"
    unfolding r using e by (simp add: h)
  with s show ?thesis by blast
qed

theorem slowdown_divides_by_zero_witness:
  "\<exists>st'. plan_buffer_line hasty_config 0 (301/10) 0 0 (1/10) 1000000 0 draining_queue
           = Some st'
      \<and> block_buffer_head st' = 4
      \<and> \<not> 0 < nominal_speed (block_buffer st' ! 3)"
  using slowdown_divides_by_zero [of 0] by blast

subsection \<open>The extruder of the position register\<close>

lemma swap_ring:
  "BLOCK_BUFFER_SIZE example_config = 2 ^ 4"
  "block_buffer_head swap_state < BLOCK_BUFFER_SIZE example_config"
  "block_buffer_tail swap_state < BLOCK_BUFFER_SIZE example_config"
  "block_buffer_tail swap_state \<noteq>
     next_block_index (BLOCK_BUFFER_SIZE example_config) (block_buffer_head swap_state)"
  by (simp_all add: example_config_def swap_state_def plan_set_position_def empty_queue_def
      next_block_index_def)

lemma swap_state_eq:
  "swap_state = empty_queue\<lparr>position := [0, 0, 0, 1000]\<rparr>"
  by (simp add: swap_state_def plan_set_position_def empty_queue_def example_config_def lround_def)

text \<open>
  C4. The claim is that only the first call after a change of extruder rescales
  \<^verbatim>\<open>position[E_AXIS]\<close>. \<open>plan_buffer_line\<close> compares with \<^verbatim>\<open>last_extruder\<close> but never
  assigns it, so every call for an extruder other than the one of the last
  \<open>plan_set_position\<close> rescales again. With E at 10 mm for extruder 0 (1000 steps),
  the first move for extruder 1 to X = 10, E = 10 rescales the register to 1400 steps
  and leaves it at the target, 1400. The second call, for the same extruder and the
  same target, rescales 1400 to 1960, finds 560 steps of E to go and queues a block for
  a move to the place where the tool already is.
\<close>

theorem rescale_repeats:
  "\<exists>s1 s2. plan_buffer_line example_config ind 10 0 0 10 50 1 swap_state = Some s1
      \<and> position s1 = [800, 0, 0, 1400]
      \<and> last_extruder s1 = 0
      \<and> position (rescale_position example_config 1 s1) = [800, 0, 0, 1960]
      \<and> move_step_event_count example_config 10 0 0 10 1 s1 = 560
      \<and> plan_buffer_line example_config ind 10 0 0 10 50 1 s1 = Some s2
      \<and> block_buffer_head s1 = 1
      \<and> block_buffer_head s2 = 2"
proof -
  have q: "quantize_target example_config 10 0 0 10 1 = [800, 0, 0, 1400]"
    by (simp add: quantize_target_def example_config_def lround_def)
  have c1: "dropsegments example_config
              < move_step_event_count example_config 10 0 0 10 1 swap_state"
    unfolding move_step_event_count_def q swap_state_eq
    by (simp add: rescale_position_def count_steps_def labs_def lround_def
        signed_divide_int_def example_config_def empty_queue_def)
  from plan_buffer_line_accepted[OF swap_ring c1, of ind 50]
  obtain buf v n where
    r1: "plan_buffer_line example_config ind 10 0 0 10 50 1 swap_state
          = Some (swap_state\<lparr>block_buffer := buf, previous_speed := v,
               previous_nominal_speed := n,
               block_buffer_head :=
                 next_block_index (BLOCK_BUFFER_SIZE example_config) (block_buffer_head swap_state),
               position := quantize_target example_config 10 0 0 10 1\<rparr>)"
    by blast
  define s1 where "s1 = swap_state\<lparr>block_buffer := buf, previous_speed := v,
               previous_nominal_speed := n,
               block_buffer_head :=
                 next_block_index (BLOCK_BUFFER_SIZE example_config) (block_buffer_head swap_state),
               position := quantize_target example_config 10 0 0 10 1\<rparr>"
  have s1: "position s1 = [800, 0, 0, 1400]" "last_extruder s1 = 0"
    "block_buffer_head s1 = 1" "block_buffer_tail s1 = 0"
    unfolding s1_def q
    by (simp_all add: swap_state_eq empty_queue_def example_config_def next_block_index_def)
  have res: "position (rescale_position example_config 1 s1) = [800, 0, 0, 1960]"
    unfolding rescale_position_def s1
    by (simp add: example_config_def lround_def s1 Let_def numeral_3_eq_3)
  have cnt: "move_step_event_count example_config 10 0 0 10 1 s1 = 560"
    unfolding move_step_event_count_def Let_def res q
    by (simp add: count_steps_def labs_def signed_divide_int_def example_config_def)
  have ring: "BLOCK_BUFFER_SIZE example_config = 2 ^ 4"
    "block_buffer_head s1 < BLOCK_BUFFER_SIZE example_config"
    "block_buffer_tail s1 < BLOCK_BUFFER_SIZE example_config"
    "block_buffer_tail s1 \<noteq>
       next_block_index (BLOCK_BUFFER_SIZE example_config) (block_buffer_head s1)"
    unfolding s1 by (simp_all add: example_config_def next_block_index_def)
  have c2: "dropsegments example_config < move_step_event_count example_config 10 0 0 10 1 s1"
    unfolding cnt by (simp add: example_config_def)
  from plan_buffer_line_accepted[OF ring c2, of ind 50]
  obtain buf2 v2 n2 where
    r2: "plan_buffer_line example_config ind 10 0 0 10 50 1 s1
          = Some (s1\<lparr>block_buffer := buf2, previous_speed := v2,
               previous_nominal_speed := n2,
               block_buffer_head :=
                 next_block_index (BLOCK_BUFFER_SIZE example_config) (block_buffer_head s1),
               position := quantize_target example_config 10 0 0 10 1\<rparr>)"
    by blast
  define s2 where "s2 = s1\<lparr>block_buffer := buf2, previous_speed := v2,
               previous_nominal_speed := n2,
               block_buffer_head :=
                 next_block_index (BLOCK_BUFFER_SIZE example_config) (block_buffer_head s1),
               position := quantize_target example_config 10 0 0 10 1\<rparr>"
  have "next_block_index (BLOCK_BUFFER_SIZE example_config) 1 = 2"
    by (simp add: example_config_def next_block_index_def)
  then have h2: "block_buffer_head s2 = 2"
    by (simp add: s2_def s1)
  show ?thesis
    using r1[folded s1_def] r2[folded s2_def] s1 res cnt h2
    by (intro exI[of _ s1] exI[of _ s2] conjI)
qed


end
